theory Spec2Isabelle
  imports Complex_Main
begin

section \<open>Python values used by the compositor\<close>

text \<open>
  The motion and compositing engine of \<^verbatim>\<open>src/app/ai.py\<close> computes on Python floats and
  ints. Floats are modelled by \<^typ>\<open>real\<close> (no rounding), Python ints by \<^typ>\<open>int\<close>.
\<close>

datatype py_error = IndexError | EncoderError

type_synonym point = "real \<times> real"

text \<open>\<^verbatim>\<open>int(x)\<close> on a float truncates toward zero.\<close>

definition py_int :: "real \<Rightarrow> int" where
  "py_int x = (if 0 \<le> x then \<lfloor>x\<rfloor> else \<lceil>x\<rceil>)"

text \<open>
  \<^verbatim>\<open>xs[i]\<close>: an index below zero counts from the end of the list, and an index that is
  still out of range after that raises \<^verbatim>\<open>IndexError\<close>.
\<close>

definition py_index :: "'a list \<Rightarrow> int \<Rightarrow> py_error + 'a" where
  "py_index xs i =
     (if 0 \<le> i then (if i < int (length xs) then Inr (xs ! nat i) else Inl IndexError)
      else (if - int (length xs) \<le> i then Inr (xs ! nat (int (length xs) + i))
            else Inl IndexError))"

text \<open>\<^verbatim>\<open>x % 1.0\<close> on floats has the sign of the divisor: it is the fractional part.\<close>

definition py_mod1 :: "real \<Rightarrow> real" where
  "py_mod1 x = x - of_int \<lfloor>x\<rfloor>"

definition bind_err :: "'e + 'a \<Rightarrow> ('a \<Rightarrow> 'e + 'b) \<Rightarrow> 'e + 'b" where
  "bind_err m k = (case m of Inl e \<Rightarrow> Inl e | Inr v \<Rightarrow> k v)"

section \<open>Sampling a position on a path\<close>

text \<open>
  The cubic ease-in-out written twice in \<^verbatim>\<open>composite_video\<close> (lines 417-420 and 460-463):
  \<^verbatim>\<open>4 * s**3\<close> below one half, \<^verbatim>\<open>1 - (-2 * s + 2)**3 / 2\<close> from there on.
\<close>

definition ease_in_out :: "real \<Rightarrow> real" where
  "ease_in_out s = (if s < 0.5 then 4 * s ^ 3 else 1 - (- 2 * s + 2) ^ 3 / 2)"

text \<open>
  \<^verbatim>\<open>get_path_position(points, t)\<close>, lines 396-426. The empty path gives \<^verbatim>\<open>(0, 0)\<close>;
  otherwise the two list reads are Python index reads.
\<close>

definition get_path_position :: "point list \<Rightarrow> real \<Rightarrow> py_error + point" where
  "get_path_position points t =
     (if points = [] then Inr (0, 0)
      else
        let t_looped = t - of_int (py_int t);
            num_segments = int (length points) - 1;
            segment_idx = min (py_int (t_looped * of_int num_segments)) (num_segments - 1);
            segment_t = t_looped * of_int num_segments - of_int segment_idx
        in bind_err (py_index points segment_idx) (\<lambda>p1.
           bind_err (py_index points (segment_idx + 1)) (\<lambda>p2.
             let s = ease_in_out segment_t
             in Inr (fst p1 + (fst p2 - fst p1) * s, snd p1 + (snd p2 - snd p1) * s))))"

section \<open>The seeded random source\<close>

text \<open>
  \<^verbatim>\<open>random.Random\<close> belongs to the Python standard library, not to the repository. The
  model takes it as a parameter: a generator state \<^typ>\<open>'g\<close>, the state an integer seed
  gives, and the two primitive draws every method used here is built from
  (\<^verbatim>\<open>random()\<close> and \<^verbatim>\<open>_randbelow(n)\<close>). Each draw returns the drawn value and the next
  state.
\<close>

record 'g random_source =
  rnd_seed :: "int \<Rightarrow> 'g"
  rnd_random :: "'g \<Rightarrow> real \<times> 'g"
  rnd_randbelow :: "nat \<Rightarrow> 'g \<Rightarrow> nat \<times> 'g"

text \<open>
  What the library documents of the two draws: \<^verbatim>\<open>random()\<close> lies in \<open>[0, 1)\<close> and
  \<^verbatim>\<open>_randbelow(n)\<close> lies below \<open>n\<close>.
\<close>

definition rng_ok :: "'g random_source \<Rightarrow> bool" where
  "rng_ok R \<longleftrightarrow>
     (\<forall>g. 0 \<le> fst (rnd_random R g) \<and> fst (rnd_random R g) < 1) \<and>
     (\<forall>n g. 0 < n \<longrightarrow> fst (rnd_randbelow R n g) < n)"

text \<open>\<^verbatim>\<open>uniform(a, b)\<close> is \<^verbatim>\<open>a + (b - a) * self.random()\<close>.\<close>

definition uniform :: "'g random_source \<Rightarrow> real \<Rightarrow> real \<Rightarrow> 'g \<Rightarrow> real \<times> 'g" where
  "uniform R a b g = (let (u, g') = rnd_random R g in (a + (b - a) * u, g'))"

text \<open>\<^verbatim>\<open>randint(a, b)\<close> is \<^verbatim>\<open>a + self._randbelow(b + 1 - a)\<close>.\<close>

definition randint :: "'g random_source \<Rightarrow> int \<Rightarrow> int \<Rightarrow> 'g \<Rightarrow> int \<times> 'g" where
  "randint R a b g = (let (k, g') = rnd_randbelow R (nat (b + 1 - a)) g in (a + int k, g'))"

text \<open>
  \<^verbatim>\<open>choice(seq)\<close> is \<^verbatim>\<open>seq[self._randbelow(len(seq))]\<close>; the index is in range for every
  generator that satisfies \<^const>\<open>rng_ok\<close>.
\<close>

definition choice :: "'g random_source \<Rightarrow> 'a list \<Rightarrow> 'g \<Rightarrow> 'a \<times> 'g" where
  "choice R xs g = (let (k, g') = rnd_randbelow R (length xs) g in (xs ! k, g'))"

definition randrange :: "'g random_source \<Rightarrow> nat \<Rightarrow> 'g \<Rightarrow> nat \<times> 'g" where
  "randrange R n g = rnd_randbelow R n g"

text \<open>
  A small linear congruential generator that satisfies the interface; it instantiates the
  parameter in the concrete runs below.
\<close>

definition lcg_next :: "nat \<Rightarrow> nat" where
  "lcg_next g = (g * 1103515245 + 12345) mod 2147483648"

definition lcg_source :: "nat random_source" where
  "lcg_source =
     \<lparr> rnd_seed = (\<lambda>s. nat \<bar>s\<bar>),
       rnd_random = (\<lambda>g. (real (g mod 1000) / 1000, lcg_next g)),
       rnd_randbelow = (\<lambda>n g. (g mod n, lcg_next g)) \<rparr>"

section \<open>Settings, motion data and images\<close>

text \<open>
  The per-sprite settings dictionary, one optional field per recognised key;
  \<^verbatim>\<open>d.get(key, default)\<close> is \<open>dict_get (key d) default\<close> and \<^verbatim>\<open>key in d\<close> is
  \<open>key d \<noteq> None\<close>.
\<close>

record char_settings =
  scale :: "real option"
  scale_variation :: "real option"
  rotation :: "real option"
  fixed_position :: "bool option"
  position_x :: "real option"
  position_y :: "real option"
  micro_movement :: "real option"
  move_range :: "real option"
  path_type :: "string option"
  path_speed :: "real option"
  breathe_amount :: "real option"
  breathe_speed :: "real option"
  rotation_speed :: "real option"
  tilt_factor :: "real option"

definition no_settings :: char_settings where
  "no_settings =
     \<lparr> scale = None, scale_variation = None, rotation = None, fixed_position = None,
       position_x = None, position_y = None, micro_movement = None, move_range = None,
       path_type = None, path_speed = None, breathe_amount = None, breathe_speed = None,
       rotation_speed = None, tilt_factor = None \<rparr>"

definition dict_get :: "'a option \<Rightarrow> 'a \<Rightarrow> 'a" where
  "dict_get v d = (case v of Some x \<Rightarrow> x | None \<Rightarrow> d)"

text \<open>The \<^verbatim>\<open>motion_data\<close> dictionary of lines 377-388.\<close>

record motion_data =
  scale_base :: real
  scale_target :: real
  angle_base :: real
  control_points :: "point list"
  motion_breathe_amount :: real
  motion_breathe_speed :: real
  pulse_amount :: real
  pulse_speed :: real
  motion_rotation_speed :: real
  motion_path_type :: string

text \<open>
  A raster image is its size and its pixels; the pixels are opaque. A frame is the resized
  background and the sprites composited onto it so far, in the order of the
  \<^verbatim>\<open>alpha_composite\<close> calls: each layer is a sprite resized to a pixel size, rotated by an
  angle and pasted at a destination. The raster operations of the imaging library are
  taken to succeed.
\<close>

record image =
  im_size :: "int \<times> int"
  im_pixels :: nat

datatype layer = Layer (sprite: image) (resized_to: "int \<times> int") (rotated_by: real)
  (pasted_at: "int \<times> int")

record frame =
  canvas :: image
  layers :: "layer list"

section \<open>Building the control-point paths\<close>

text \<open>
  The loops of lines 120-389 of \<^verbatim>\<open>composite_video\<close>, one function per loop. Each takes
  the locals it reads (\<^verbatim>\<open>width\<close>, \<^verbatim>\<open>height\<close>, \<^verbatim>\<open>margin\<close>, the base position, \<^verbatim>\<open>move_range\<close>)
  and threads the locals it assigns: the generator state and, where the loop body
  assigns it, the variable \<^verbatim>\<open>angle\<close>.
\<close>

text \<open>The fixed-position branch, lines 160-170: eight points around the base.\<close>

primrec micro_points ::
  "'g random_source \<Rightarrow> int \<Rightarrow> int \<Rightarrow> real \<Rightarrow> real \<Rightarrow> real option \<Rightarrow> nat \<Rightarrow> nat list \<Rightarrow> 'g
     \<Rightarrow> point list \<times> 'g" where
  "micro_points R width height base_x base_y micro num_points [] g = ([], g)"
| "micro_points R width height base_x base_y micro num_points (p # ps) g =
     (let t_offset = real p / real num_points;
          (r1, g1) = rnd_random R g;
          (r2, g2) = rnd_random R g1;
          noise_x = sin (t_offset * 6.28 + r1 * 10) * sin (t_offset * 9.42 + r2 * 10);
          (r3, g3) = rnd_random R g2;
          (r4, g4) = rnd_random R g3;
          noise_y = sin (t_offset * 7.85 + r3 * 10) * sin (t_offset * 5.67 + r4 * 10);
          micro_move = dict_get micro (real_of_int (min width height) * 0.02);
          px = base_x + noise_x * micro_move;
          py = base_y + noise_y * micro_move;
          (rest, g') = micro_points R width height base_x base_y micro num_points ps g4
      in ((px, py) # rest, g'))"

text \<open>The circle branch, lines 184-194.\<close>

primrec circle_anchors ::
  "'g random_source \<Rightarrow> int \<Rightarrow> int \<Rightarrow> real \<Rightarrow> real \<Rightarrow> real \<Rightarrow> real \<Rightarrow> int \<Rightarrow> nat list
     \<Rightarrow> real \<times> 'g \<Rightarrow> point list \<times> real \<times> 'g" where
  "circle_anchors R width height margin base_x base_y mv_range num_points [] st =
     ([], fst st, snd st)"
| "circle_anchors R width height margin base_x base_y mv_range num_points (p # ps) st =
     (let g = snd st;
          angle = real p * 2 * pi / real_of_int num_points;
          (u, g1) = rnd_random R g;
          radius = mv_range * (0.7 + u * 0.3);
          px = base_x + cos angle * radius;
          py = base_y + sin angle * radius;
          px = max margin (min (real_of_int width - margin) px);
          py = max margin (min (real_of_int height - margin) py);
          (rest, angle', g') =
             circle_anchors R width height margin base_x base_y mv_range num_points ps (angle, g1)
      in ((px, py) # rest, angle', g'))"

text \<open>The figure-8 branch, lines 196-206.\<close>

primrec figure8_anchors ::
  "'g random_source \<Rightarrow> int \<Rightarrow> int \<Rightarrow> real \<Rightarrow> real \<Rightarrow> real \<Rightarrow> real \<Rightarrow> int \<Rightarrow> nat list
     \<Rightarrow> real \<times> 'g \<Rightarrow> point list \<times> real \<times> 'g" where
  "figure8_anchors R width height margin base_x base_y mv_range num_points [] st =
     ([], fst st, snd st)"
| "figure8_anchors R width height margin base_x base_y mv_range num_points (p # ps) st =
     (let g = snd st;
          angle = real p * 2 * pi / real_of_int num_points;
          (u, g1) = rnd_random R g;
          radius = mv_range * (0.7 + u * 0.3);
          px = base_x + sin (angle * 2) * radius * 0.5;
          py = base_y + sin angle * radius;
          px = max margin (min (real_of_int width - margin) px);
          py = max margin (min (real_of_int height - margin) py);
          (rest, angle', g') =
             figure8_anchors R width height margin base_x base_y mv_range num_points ps (angle, g1)
      in ((px, py) # rest, angle', g'))"

text \<open>The wave branch, lines 208-220; it draws nothing.\<close>

definition wave_anchors ::
  "int \<Rightarrow> int \<Rightarrow> real \<Rightarrow> real \<Rightarrow> real \<Rightarrow> real \<Rightarrow> int \<Rightarrow> point list" where
  "wave_anchors width height margin base_x base_y mv_range num_points =
     map (\<lambda>p.
        let t = real p / real_of_int num_points;
            wave_x = mv_range * sin (t * 2 * pi * 2);
            wave_y = mv_range * 0.3 * sin (t * 2 * pi * 4);
            px = base_x + wave_x;
            py = base_y + wave_y
        in (max margin (min (real_of_int width - margin) px),
            max margin (min (real_of_int height - margin) py)))
       [0..<nat num_points]"

text \<open>The organic branch, lines 222-268: three key points, then the points between them.\<close>

primrec organic_key_points ::
  "'g random_source \<Rightarrow> int \<Rightarrow> int \<Rightarrow> real \<Rightarrow> real \<Rightarrow> real \<Rightarrow> real \<Rightarrow> nat list
     \<Rightarrow> real \<times> 'g \<Rightarrow> point list \<times> real \<times> 'g" where
  "organic_key_points R width height margin base_x base_y mv_range [] st = ([], fst st, snd st)"
| "organic_key_points R width height margin base_x base_y mv_range (k # ks) st =
     (let (u1, g1) = rnd_random R (snd st);
          angle = u1 * 2 * pi;
          (u2, g2) = rnd_random R g1;
          distance = mv_range * (0.5 + u2 * 0.5);
          px = base_x + cos angle * distance;
          py = base_y + sin angle * distance;
          px = max margin (min (real_of_int width - margin) px);
          py = max margin (min (real_of_int height - margin) py);
          (rest, angle', g') =
             organic_key_points R width height margin base_x base_y mv_range ks (angle, g2)
      in ((px, py) # rest, angle', g'))"

primrec organic_between ::
  "'g random_source \<Rightarrow> int \<Rightarrow> int \<Rightarrow> real \<Rightarrow> real \<Rightarrow> point \<Rightarrow> point \<Rightarrow> nat list \<Rightarrow> 'g
     \<Rightarrow> point list \<times> 'g" where
  "organic_between R width height margin mv_range a b [] g = ([], g)"
| "organic_between R width height margin mv_range a b (k # ks) g =
     (let (x1, y1) = a;
          (x2, y2) = b;
          (t, g1) = rnd_random R g;
          (u, g2) = rnd_random R g1;
          perpendicular_dist = mv_range * 0.2 * (u - 0.5);
          dx = x2 - x1;
          dy = y2 - y1;
          perp_x = - dy;
          perp_y = dx;
          len = sqrt (perp_x ^ 2 + perp_y ^ 2);
          perp_x' = (if len > 0 then perp_x / len else perp_x);
          perp_y' = (if len > 0 then perp_y / len else perp_y);
          ix = x1 + (x2 - x1) * t + perp_x' * perpendicular_dist;
          iy = y1 + (y2 - y1) * t + perp_y' * perpendicular_dist;
          ix = max margin (min (real_of_int width - margin) ix);
          iy = max margin (min (real_of_int height - margin) iy);
          (rest, g') = organic_between R width height margin mv_range a b ks g2
      in ((ix, iy) # rest, g'))"

primrec organic_legs ::
  "'g random_source \<Rightarrow> int \<Rightarrow> int \<Rightarrow> real \<Rightarrow> real \<Rightarrow> point list \<Rightarrow> nat list \<Rightarrow> 'g
     \<Rightarrow> point list \<times> 'g" where
  "organic_legs R width height margin mv_range key_points [] g = ([], g)"
| "organic_legs R width height margin mv_range key_points (j # js) g =
     (let next_j = (j + 1) mod length key_points;
          (count, g1) = randint R 1 2 g;
          (between, g2) =
             organic_between R width height margin mv_range (key_points ! j) (key_points ! next_j)
               [0..<nat count] g1;
          (rest, g') = organic_legs R width height margin mv_range key_points js g2
      in (key_points ! j # between @ rest, g'))"

definition organic_anchors ::
  "'g random_source \<Rightarrow> int \<Rightarrow> int \<Rightarrow> real \<Rightarrow> real \<Rightarrow> real \<Rightarrow> real \<Rightarrow> real \<times> 'g
     \<Rightarrow> point list \<times> real \<times> 'g" where
  "organic_anchors R width height margin base_x base_y mv_range st =
     (let (key_points, angle, g1) =
             organic_key_points R width height margin base_x base_y mv_range [0..<3] st;
          (legs, g2) =
             organic_legs R width height margin mv_range key_points [0..<length key_points] g1
      in ((base_x, base_y) # legs, angle, g2))"

text \<open>
  The anchors of a positioned, moving sprite, lines 173-268. Both defaults are drawn
  whether or not the setting is present: Python evaluates the default argument of
  \<^verbatim>\<open>get\<close> first. The result carries the chosen \<^verbatim>\<open>path_type\<close> and the final \<^verbatim>\<open>angle\<close>.
\<close>

definition anchor_points ::
  "'g random_source \<Rightarrow> int \<Rightarrow> int \<Rightarrow> real \<Rightarrow> real \<Rightarrow> real \<Rightarrow> char_settings \<Rightarrow> real \<times> 'g
     \<Rightarrow> point list \<times> string \<times> real \<times> 'g" where
  "anchor_points R width height margin base_x base_y cs st =
     (let (angle, g) = st;
          mv_range = dict_get (move_range cs) 0.4 * real_of_int (min width height);
          (num_points, g1) = randint R 6 9 g;
          (chosen, g2) = choice R [''circle'', ''figure8'', ''organic'', ''wave''] g1;
          ptype = dict_get (path_type cs) chosen;
          (anchors, angle', g3) =
            (if ptype = ''circle'' then
               circle_anchors R width height margin base_x base_y mv_range num_points
                 [0..<nat num_points] (angle, g2)
             else if ptype = ''figure8'' then
               figure8_anchors R width height margin base_x base_y mv_range num_points
                 [0..<nat num_points] (angle, g2)
             else if ptype = ''wave'' then
               (wave_anchors width height margin base_x base_y mv_range num_points, angle, g2)
             else organic_anchors R width height margin base_x base_y mv_range (angle, g2))
      in (anchors, ptype, angle', g3))"

text \<open>
  The Catmull-Rom conversion, written twice in the source (lines 271-307 with four
  segments, lines 335-365 with five): every anchor, followed by the points interpolated
  towards the next anchor, each clamped to the margins. The neighbours are read modulo the
  number of anchors; Python's \<^verbatim>\<open>%\<close> by a positive number is never negative.
\<close>

definition catmull_rom :: "real \<Rightarrow> real \<Rightarrow> real \<Rightarrow> real \<Rightarrow> real \<Rightarrow> real" where
  "catmull_rom a0 a1 a2 a3 t =
     (let t2 = t * t;
          t3 = t2 * t
      in 0.5 * ((2 * a1) + (- a0 + a2) * t + (2 * a0 - 5 * a1 + 4 * a2 - a3) * t2 +
                (- a0 + 3 * a1 - 3 * a2 + a3) * t3))"

definition spline_points :: "int \<Rightarrow> int \<Rightarrow> real \<Rightarrow> nat \<Rightarrow> point list \<Rightarrow> point list" where
  "spline_points width height margin num_segments pts =
     concat (map (\<lambda>j.
        let n = int (length pts);
            p0 = pts ! nat ((int j - 1) mod n);
            p1 = pts ! j;
            p2 = pts ! nat ((int j + 1) mod n);
            p3 = pts ! nat ((int j + 2) mod n)
        in p1 # map (\<lambda>s.
             let t = real s / real num_segments;
                 x = catmull_rom (fst p0) (fst p1) (fst p2) (fst p3) t;
                 y = catmull_rom (snd p0) (snd p1) (snd p2) (snd p3) t
             in (max margin (min (real_of_int width - margin) x),
                 max margin (min (real_of_int height - margin) y)))
            [1..<num_segments])
       [0..<length pts])"

text \<open>The fully random branch, lines 311-365.\<close>

primrec random_key_points ::
  "'g random_source \<Rightarrow> int \<Rightarrow> int \<Rightarrow> real \<Rightarrow> nat list \<Rightarrow> 'g \<Rightarrow> point list \<times> 'g" where
  "random_key_points R width height margin [] g = ([], g)"
| "random_key_points R width height margin (p # ps) g =
     (let (px, g1) = uniform R margin (real_of_int width - margin) g;
          (py, g2) = uniform R margin (real_of_int height - margin) g1;
          (rest, g') = random_key_points R width height margin ps g2
      in ((px, py) # rest, g'))"

definition random_path ::
  "'g random_source \<Rightarrow> int \<Rightarrow> int \<Rightarrow> real \<Rightarrow> 'g \<Rightarrow> point list \<times> 'g" where
  "random_path R width height margin g =
     (let (num_key_points, g1) = randint R 4 6 g;
          (key_points, g2) = random_key_points R width height margin [0..<nat num_key_points] g1;
          first = key_points ! 0;
          lst = last key_points;
          dist = sqrt ((fst first - fst lst) ^ 2 + (snd first - snd lst) ^ 2);
          key_points' =
            (if dist > real_of_int (min width height) * 0.2 then
               key_points[length key_points - 1 :=
                 (fst first + (fst lst - fst first) * 0.2,
                  snd first + (snd lst - snd first) * 0.2)]
             else key_points)
      in (spline_points width height margin 5 key_points', g2))"

section \<open>The motion data of every sprite\<close>

text \<open>
  The optional enhancement of \<^verbatim>\<open>smpl_avatar.py\<close>: absent when the module cannot be
  imported (\<^verbatim>\<open>SMPL_AVAILABLE = False\<close>); when present it may raise, which
  \<^verbatim>\<open>composite_video\<close> catches and ignores.
\<close>

type_synonym enhancer = "char_settings \<Rightarrow> image \<Rightarrow> string \<Rightarrow> int option \<Rightarrow> py_error + char_settings"

text \<open>
  One pass of the loop of lines 120-389, for sprite \<open>i\<close>. Besides the generator the loop
  carries the function-level variable \<^verbatim>\<open>path_type\<close>, which only the moving branch assigns
  and which line 387 reads through \<^verbatim>\<open>'path_type' in locals()\<close>.
\<close>

definition sprite_motion ::
  "'g random_source \<Rightarrow> enhancer option \<Rightarrow> int \<Rightarrow> int \<Rightarrow> int option \<Rightarrow> string
     \<Rightarrow> (nat \<rightharpoonup> char_settings) \<Rightarrow> nat \<Rightarrow> image \<Rightarrow> 'g \<times> string option
     \<Rightarrow> motion_data \<times> 'g \<times> string option" where
  "sprite_motion R smpl width height seed text_prompt character_settings i av st =
     (let (g, path_type_local) = st;
          cs0 = dict_get (character_settings i) no_settings;
          cs = (case smpl of
                  None \<Rightarrow> cs0
                | Some enhance_character_animation \<Rightarrow>
                    (case enhance_character_animation cs0 av text_prompt seed of
                       Inl e \<Rightarrow> cs0
                     | Inr enhanced \<Rightarrow> enhanced));
          (d1, g1) = uniform R 0.35 0.6 g;
          scale0 = dict_get (scale cs) d1;
          (d2, g2) = uniform R 0.8 1.25 g1;
          scale_var = dict_get (scale_variation cs) d2;
          scale1 = scale0 * scale_var;
          (d3, g3) = uniform R (- 8) 8 g2;
          angle = dict_get (rotation cs) d3;
          margin = 0.15 * real_of_int (min width height);
          (points, angle', path_type_local', g4) =
            (if position_x cs \<noteq> None \<and> position_y cs \<noteq> None then
               let base_x = the (position_x cs);
                   base_y = the (position_y cs)
               in if dict_get (fixed_position cs) False then
                    let (pts, g') =
                          micro_points R width height base_x base_y (micro_movement cs) 8 [0..<8] g3
                    in (pts, angle, path_type_local, g')
                  else
                    let (anchors, ptype, ang, g') =
                          anchor_points R width height margin base_x base_y cs (angle, g3)
                    in (spline_points width height margin 4 anchors, ang, Some ptype, g')
             else
               let (pts, g') = random_path R width height margin g3
               in (pts, angle, path_type_local, g'));
          (d4, g5) = uniform R 0.02 0.05 g4;
          breathe_amt = dict_get (breathe_amount cs) d4;
          (d5, g6) = uniform R 0.8 1.3 g5;
          breathe_spd = dict_get (breathe_speed cs) d5;
          (d6, g7) = uniform R 0.7 1.3 g6
      in (\<lparr> scale_base = scale0,
             scale_target = scale1,
             angle_base = angle',
             control_points = points,
             motion_breathe_amount = breathe_amt,
             motion_breathe_speed = breathe_spd,
             pulse_amount = breathe_amt * 0.3,
             pulse_speed = breathe_spd * 2.7,
             motion_rotation_speed = dict_get (rotation_speed cs) d6,
             motion_path_type = dict_get path_type_local' ''organic'' \<rparr>,
          g7, path_type_local'))"

text \<open>\<^verbatim>\<open>for i, av in enumerate(avatars)\<close>: the list \<^verbatim>\<open>motions\<close> and the state after the loop.\<close>

primrec build_motions ::
  "'g random_source \<Rightarrow> enhancer option \<Rightarrow> int \<Rightarrow> int \<Rightarrow> int option \<Rightarrow> string
     \<Rightarrow> (nat \<rightharpoonup> char_settings) \<Rightarrow> image list \<Rightarrow> nat \<Rightarrow> 'g \<times> string option
     \<Rightarrow> motion_data list \<times> 'g \<times> string option" where
  "build_motions R smpl width height seed text_prompt character_settings [] i st = ([], st)"
| "build_motions R smpl width height seed text_prompt character_settings (av # avs) i st =
     (let (m, st1) = sprite_motion R smpl width height seed text_prompt character_settings i av st;
          (ms, st2) =
             build_motions R smpl width height seed text_prompt character_settings avs (Suc i) st1
      in (m # ms, st2))"

section \<open>Rendering one frame\<close>

text \<open>\<^verbatim>\<open>math.atan2\<close> and \<^verbatim>\<open>math.degrees\<close>, without signed zeros.\<close>

definition atan2 :: "real \<Rightarrow> real \<Rightarrow> real" where
  "atan2 y x =
     (if 0 < x then arctan (y / x)
      else if x < 0 then (if 0 \<le> y then arctan (y / x) + pi else arctan (y / x) - pi)
      else if 0 < y then pi / 2
      else if y < 0 then - (pi / 2)
      else 0)"

definition degrees :: "real \<Rightarrow> real" where
  "degrees x = x * 180 / pi"

text \<open>
  Lines 436-447: the order in which the sprites of a frame are composited. The key of
  sprite \<open>i\<close> is the y coordinate of its path sampled at the frame time \<open>t\<close>; the sort is
  Python's stable \<^verbatim>\<open>list.sort\<close>, ascending.
\<close>

primrec y_positions :: "motion_data list \<Rightarrow> real \<Rightarrow> nat list \<Rightarrow> py_error + (nat \<times> real) list" where
  "y_positions motions t [] = Inr []"
| "y_positions motions t (i # rest) =
     bind_err (get_path_position (control_points (motions ! i)) t) (\<lambda>pos.
     bind_err (y_positions motions t rest) (\<lambda>keyed. Inr ((i, snd pos) # keyed)))"

definition sorted_avatars :: "motion_data list \<Rightarrow> nat \<Rightarrow> real \<Rightarrow> py_error + nat list" where
  "sorted_avatars motions n t =
     (if list_all (\<lambda>i. control_points (motions ! i) \<noteq> []) [0..<n] then
        bind_err (y_positions motions t [0..<n]) (\<lambda>keyed. Inr (map fst (sort_key snd keyed)))
      else Inr [0..<n])"

text \<open>
  Lines 450-534: the transform of sprite \<open>i\<close> at frame time \<open>t\<close>: position, the two scale
  factors and the rotation angle. The settings read here are the caller's, not the
  enhanced ones.
\<close>

record transform =
  pos_x :: real
  pos_y :: real
  scale_x :: real
  scale_y :: real
  anim_angle :: real

definition sprite_transform ::
  "(nat \<rightharpoonup> char_settings) \<Rightarrow> motion_data list \<Rightarrow> real \<Rightarrow> nat \<Rightarrow> py_error + transform" where
  "sprite_transform character_settings motions t i =
     (let motion = motions ! i;
          cs = dict_get (character_settings i) no_settings;
          speed_setting = dict_get (path_speed cs) 1.0;
          t_adjusted = py_mod1 (t * speed_setting * 1.5);
          t_eased = ease_in_out t_adjusted
      in bind_err (get_path_position (control_points motion) t_eased) (\<lambda>pos.
         let delta = 0.02
         in bind_err (get_path_position (control_points motion) (py_mod1 (t_eased + delta))) (\<lambda>next_pos.
            bind_err (get_path_position (control_points motion) (py_mod1 (t_eased - delta))) (\<lambda>prev_pos.
         let dir_x = fst next_pos - fst prev_pos;
             dir_y = snd next_pos - snd prev_pos;
             dir_length = sqrt (dir_x ^ 2 + dir_y ^ 2);
             dir_x' = (if dir_length > 0.001 then dir_x / dir_length else dir_x);
             dir_y' = (if dir_length > 0.001 then dir_y / dir_length else dir_y);
             speed = sqrt ((fst next_pos - fst prev_pos) ^ 2 + (snd next_pos - snd prev_pos) ^ 2) * 25;
             breathe = motion_breathe_amount motion * sin (2 * pi * t * motion_breathe_speed motion);
             pulse = pulse_amount motion * sin (2 * pi * t * pulse_speed motion + 0.7);
             micro = motion_breathe_amount motion * 0.1 * sin (2 * pi * t * 3.7 + 1.3);
             scale_t = 0.5 - 0.5 * cos (pi * t);
             base_scale = scale_base motion + (scale_target motion - scale_base motion) * scale_t;
             sx = base_scale * (1.0 + breathe + pulse + micro);
             sy = base_scale * (1.0 + (breathe * 0.8) + pulse + (micro * 1.2));
             dir_angle =
               (if length (control_points motion) > 1 \<and> speed > 0.1 then
                  let movement_angle = degrees (atan2 dir_y' dir_x');
                      base_tilt = dict_get (tilt_factor cs) 0.15;
                      speed_factor = min 1.0 (speed / 10);
                      tilt = base_tilt * (0.5 + 0.5 * speed_factor)
                  in movement_angle * tilt
                else 0);
             oscillation = 2 * sin (2 * pi * t * 0.7)
         in Inr \<lparr> pos_x = fst pos, pos_y = snd pos, scale_x = sx, scale_y = sy,
                  anim_angle = angle_base motion + dir_angle +
                    angle_base motion * sin (2 * pi * t * motion_rotation_speed motion) * 0.3 +
                    oscillation \<rparr>))))"

text \<open>
  Lines 449-555: the loop over the sorted sprites. A sprite whose target size has a side
  below five pixels is skipped (\<^verbatim>\<open>continue\<close>); any other is resized, rotated and pasted.
  The size of the rotated image (\<^verbatim>\<open>expand=True\<close>) is computed by the imaging library and
  is a parameter here.
\<close>

primrec composite_sprites ::
  "(int \<times> int \<Rightarrow> real \<Rightarrow> int \<times> int) \<Rightarrow> (nat \<rightharpoonup> char_settings) \<Rightarrow> image list \<Rightarrow> motion_data list
     \<Rightarrow> real \<Rightarrow> nat list \<Rightarrow> frame \<Rightarrow> py_error + frame" where
  "composite_sprites rot_size character_settings avatars motions t [] fr = Inr fr"
| "composite_sprites rot_size character_settings avatars motions t (i # rest) fr =
     bind_err (sprite_transform character_settings motions t i) (\<lambda>tr.
       let av = avatars ! i;
           (w, h) = im_size av;
           aw = py_int (real_of_int w * scale_x tr);
           ah = py_int (real_of_int h * scale_y tr)
       in if aw < 5 \<or> ah < 5 then
            composite_sprites rot_size character_settings avatars motions t rest fr
          else
            let (rw, rh) = rot_size (aw, ah) (anim_angle tr);
                paste_x = py_int (pos_x tr - real_of_int (rw div 2));
                paste_y = py_int (pos_y tr - real_of_int (rh div 2))
            in composite_sprites rot_size character_settings avatars motions t rest
                 (fr\<lparr>layers := layers fr @ [Layer av (aw, ah) (anim_angle tr) (paste_x, paste_y)]\<rparr>))"

text \<open>
  Lines 537-555 for one sprite, given its transform: the layer the sprite adds to the
  frame, or none when it is skipped. The loop \<open>composite_sprites\<close> below adds exactly
  these layers (lemma \<open>composite_sprites_layers\<close>).
\<close>

definition sprite_layer ::
  "(int \<times> int \<Rightarrow> real \<Rightarrow> int \<times> int) \<Rightarrow> image \<Rightarrow> transform \<Rightarrow> layer option" where
  "sprite_layer rot_size av tr =
     (let (w, h) = im_size av;
          aw = py_int (real_of_int w * scale_x tr);
          ah = py_int (real_of_int h * scale_y tr)
      in if aw < 5 \<or> ah < 5 then None
         else
           let (rw, rh) = rot_size (aw, ah) (anim_angle tr);
               paste_x = py_int (pos_x tr - real_of_int (rw div 2));
               paste_y = py_int (pos_y tr - real_of_int (rh div 2))
           in Some (Layer av (aw, ah) (anim_angle tr) (paste_x, paste_y)))"

text \<open>Lines 431-555 for frame \<open>f\<close>: the frame time, the depth order, the compositing.\<close>

definition frame_time :: "int \<Rightarrow> nat \<Rightarrow> real" where
  "frame_time n_frames f = real f / real_of_int (if n_frames > 1 then n_frames - 1 else 1)"

definition render_frame ::
  "(int \<times> int \<Rightarrow> real \<Rightarrow> int \<times> int) \<Rightarrow> (nat \<rightharpoonup> char_settings) \<Rightarrow> image \<Rightarrow> image list
     \<Rightarrow> motion_data list \<Rightarrow> int \<Rightarrow> nat \<Rightarrow> py_error + frame" where
  "render_frame rot_size character_settings bg avatars motions n_frames f =
     (let t = frame_time n_frames f
      in bind_err (sorted_avatars motions (length avatars) t) (\<lambda>order.
           composite_sprites rot_size character_settings avatars motions t order
             \<lparr>canvas = bg, layers = []\<rparr>))"

section \<open>Files, the encoder and \<^verbatim>\<open>composite_video\<close>\<close>

text \<open>Decimal formatting: \<^verbatim>\<open>str(n)\<close> for \<open>n \<ge> 0\<close>, and the format \<^verbatim>\<open>{f:05d}\<close>.\<close>

fun str_nat :: "nat \<Rightarrow> string" where
  "str_nat n =
     (if n < 10 then [''0123456789'' ! n]
      else str_nat (n div 10) @ [''0123456789'' ! (n mod 10)])"

declare str_nat.simps [simp del]

definition pad5 :: "nat \<Rightarrow> string" where
  "pad5 n = replicate (5 - length (str_nat n)) CHR ''0'' @ str_nat n"

text \<open>\<^verbatim>\<open>os.path.join\<close> of two components.\<close>

definition path_join :: "string \<Rightarrow> string \<Rightarrow> string" where
  "path_join a b =
     (if b \<noteq> [] \<and> hd b = CHR ''/'' then b
      else if a = [] \<or> last a = CHR ''/'' then a @ b
      else a @ ''/'' @ b)"

definition frame_file_name :: "nat \<Rightarrow> string" where
  "frame_file_name f = ''f_'' @ pad5 f @ ''.png''"

text \<open>The arguments of the one encoder run, lines 566-587.\<close>

record encode_job =
  enc_input :: string
  enc_framerate :: int
  enc_output :: string
  enc_vcodec :: string
  enc_pix_fmt :: string
  enc_rate :: int
  enc_crf :: int
  enc_preset :: string
  enc_profile :: string
  enc_level :: string
  enc_movflags :: string
  enc_tune :: string
  enc_x264_params :: string

text \<open>
  What a job leaves in the file system: the directories it created that still exist, the
  frame images written (path and content, in writing order), the encoder runs, and the
  video files present.
\<close>

record world =
  directories :: "string list"
  frame_files :: "(string \<times> frame) list"
  encoder_runs :: "encode_job list"
  video_files :: "string list"

text \<open>
  What the job takes from its platform: the random source and the state an unseeded
  generator gets from the operating system, the optional enhancement module, the
  imaging library's rotated size, the name \<^verbatim>\<open>tempfile.mkdtemp\<close> picks for the new
  directory, \<^verbatim>\<open>tempfile.gettempdir()\<close>, and whether an encoder run succeeds.
\<close>

record 'g platform =
  rng :: "'g random_source"
  os_entropy :: 'g
  smpl :: "enhancer option"
  rotated_size :: "int \<times> int \<Rightarrow> real \<Rightarrow> int \<times> int"
  mkdtemp :: string
  gettempdir :: string
  ffmpeg_run :: "encode_job \<Rightarrow> bool"

text \<open>\<^verbatim>\<open>random.Random(seed)\<close>.\<close>

definition Random :: "'g platform \<Rightarrow> int option \<Rightarrow> 'g" where
  "Random P seed = (case seed of Some s \<Rightarrow> rnd_seed (rng P) s | None \<Rightarrow> os_entropy P)"

text \<open>
  Lines 429-560: the frame loop. Every frame is rendered and saved under its zero-padded
  index; an exception leaves the loop with the files written so far.
\<close>

primrec render_frames ::
  "(int \<times> int \<Rightarrow> real \<Rightarrow> int \<times> int) \<Rightarrow> (nat \<rightharpoonup> char_settings) \<Rightarrow> image \<Rightarrow> image list
     \<Rightarrow> motion_data list \<Rightarrow> int \<Rightarrow> string \<Rightarrow> nat list \<Rightarrow> world \<Rightarrow> py_error option \<times> world" where
  "render_frames rot_size character_settings bg avatars motions n_frames frames_dir [] w =
     (None, w)"
| "render_frames rot_size character_settings bg avatars motions n_frames frames_dir (f # fs) w =
     (case render_frame rot_size character_settings bg avatars motions n_frames f of
        Inl e \<Rightarrow> (Some e, w)
      | Inr fr \<Rightarrow>
          render_frames rot_size character_settings bg avatars motions n_frames frames_dir fs
            (w\<lparr>frame_files := frame_files w @ [(path_join frames_dir (frame_file_name f), fr)]\<rparr>))"

text \<open>
  Lines 106-389 of \<^verbatim>\<open>composite_video\<close>: the generator is seeded, the settings and the
  prompt get their defaults, and the loop over the sprites builds \<^verbatim>\<open>motions\<close>.
\<close>

definition job_motions ::
  "'g platform \<Rightarrow> image list \<Rightarrow> int \<times> int \<Rightarrow> int option \<Rightarrow> (nat \<rightharpoonup> char_settings) option
     \<Rightarrow> string option \<Rightarrow> motion_data list \<times> 'g \<times> string option" where
  "job_motions P avatars sz seed character_settings prompt =
     (let (width, height) = sz;
          g0 = Random P seed;
          settings = dict_get character_settings Map.empty;
          text_prompt = dict_get prompt []
      in build_motions (rng P) (smpl P) width height seed text_prompt settings avatars 0
           (g0, None))"

text \<open>
  \<^verbatim>\<open>composite_video\<close>, lines 92-589. The result is the returned path or the exception
  that left the function, together with the file system afterwards.
\<close>

definition composite_video ::
  "'g platform \<Rightarrow> world \<Rightarrow> image \<Rightarrow> image list \<Rightarrow> int \<Rightarrow> int \<Rightarrow> int \<times> int \<Rightarrow> int option
     \<Rightarrow> (nat \<rightharpoonup> char_settings) option \<Rightarrow> string option \<Rightarrow> (py_error + string) \<times> world" where
  "composite_video P w0 bg avatars duration_s fps sz seed character_settings prompt =
     (let (width, height) = sz;
          n_frames = duration_s * fps;
          settings = dict_get character_settings Map.empty;
          (motions, g1, path_type_local) =
             job_motions P avatars sz seed character_settings prompt;
          frames_dir = mkdtemp P;
          w1 = w0\<lparr>directories := frames_dir # directories w0\<rparr>;
          bg' = bg\<lparr>im_size := (width, height)\<rparr>;
          (raised, w2) =
             render_frames (rotated_size P) settings bg' avatars motions n_frames frames_dir
               [0..<nat n_frames] w1
      in case raised of
           Some e \<Rightarrow> (Inl e, w2)
         | None \<Rightarrow>
             let (k, g2) = randrange (rng P) 1000000 g1;
                 out_path = path_join (gettempdir P) (''scene_'' @ str_nat k @ ''.mp4'');
                 job = \<lparr> enc_input = path_join frames_dir ''f_%05d.png'',
                         enc_framerate = fps,
                         enc_output = out_path,
                         enc_vcodec = ''libx264'',
                         enc_pix_fmt = ''yuv420p'',
                         enc_rate = fps,
                         enc_crf = 17,
                         enc_preset = ''slow'',
                         enc_profile = ''high'',
                         enc_level = ''4.2'',
                         enc_movflags = ''faststart'',
                         enc_tune = ''film'',
                         enc_x264_params = ''keyint=25:no-deblock=0:deblock=0,0:no-scenecut'' \<rparr>;
                 w3 = w2\<lparr>encoder_runs := encoder_runs w2 @ [job]\<rparr>
             in if ffmpeg_run P job then
                  (Inr out_path, w3\<lparr>video_files := out_path # video_files w3\<rparr>)
                else (Inl EncoderError, w3))"

text \<open>The control-point paths a run builds: the \<^verbatim>\<open>control_points\<close> of every entry of \<^verbatim>\<open>motions\<close>.\<close>

definition built_paths ::
  "'g platform \<Rightarrow> image list \<Rightarrow> int \<times> int \<Rightarrow> int option \<Rightarrow> (nat \<rightharpoonup> char_settings) option
     \<Rightarrow> string option \<Rightarrow> point list list" where
  "built_paths P avatars sz seed character_settings prompt =
     map control_points (fst (job_motions P avatars sz seed character_settings prompt))"

section \<open>The request handler\<close>

text \<open>
  \<^verbatim>\<open>generate_video\<close> of \<^verbatim>\<open>src/app/main.py\<close>, lines 278-371. The database query, the image
  loader and the background generator are collaborators outside the engine and are
  parameters.
\<close>

record generate_request =
  prompt :: string
  character_ids :: "int list"
  duration_seconds :: int
  req_width :: int
  req_height :: int
  req_fps :: int
  req_seed :: "int option"
  req_character_settings :: "(string \<rightharpoonup> char_settings) option"

record character =
  ch_id :: int
  edited_path :: "string option"
  cutout_path :: string
  ch_scale :: "real option"
  ch_rotation :: "real option"
  ch_fixed_position :: "bool option"
  ch_move_range :: "real option"
  ch_breathe_amount :: "real option"
  ch_breathe_speed :: "real option"
  ch_tilt_factor :: "real option"
  ch_path_type :: "string option"
  ch_meta :: "(string \<rightharpoonup> real) option"

record 'g server =
  platform :: "'g platform"
  db_characters :: "int list \<Rightarrow> character list"
  path_exists :: "string \<Rightarrow> bool"
  load_avatar :: "string \<Rightarrow> image"
  bg_generate :: "string \<Rightarrow> int \<Rightarrow> int \<Rightarrow> int option \<Rightarrow> image"
  renders_dir :: string

datatype http_error = HTTPException int string | Unhandled py_error

definition py_str :: "int \<Rightarrow> string" where
  "py_str i = (if i < 0 then ''-'' @ str_nat (nat (- i)) else str_nat (nat i))"

definition basename :: "string \<Rightarrow> string" where
  "basename p = rev (takeWhile (\<lambda>c. c \<noteq> CHR ''/'') (rev p))"

text \<open>Lines 319-344: the settings stored with a character, for a sprite the request does not configure.\<close>

definition stored_settings :: "character \<Rightarrow> char_settings" where
  "stored_settings ch =
     (let m = dict_get (ch_meta ch) Map.empty;
          has_pos = (ch_meta ch \<noteq> None \<and> m ''position_x'' \<noteq> None \<and> m ''position_y'' \<noteq> None)
      in no_settings
           \<lparr> scale := (if ch_scale ch \<noteq> None \<and> ch_scale ch \<noteq> Some 1.0 then ch_scale ch else None),
             rotation := (if ch_rotation ch \<noteq> None \<and> ch_rotation ch \<noteq> Some 0.0 then ch_rotation ch else None),
             fixed_position := ch_fixed_position ch,
             position_x := (if has_pos then m ''position_x'' else None),
             position_y := (if has_pos then m ''position_y'' else None),
             move_range := ch_move_range ch,
             path_type := ch_path_type ch,
             breathe_amount := ch_breathe_amount ch,
             breathe_speed := ch_breathe_speed ch,
             tilt_factor := ch_tilt_factor ch \<rparr>)"

definition request_settings :: "generate_request \<Rightarrow> character list \<Rightarrow> nat \<rightharpoonup> char_settings" where
  "request_settings req chars i =
     (if i < length chars then
        let ch = chars ! i;
            given = dict_get (req_character_settings req) Map.empty
        in (case given (py_str (ch_id ch)) of
              Some cs \<Rightarrow> Some cs
            | None \<Rightarrow>
                if stored_settings ch = no_settings then None else Some (stored_settings ch))
      else None)"

text \<open>Lines 299-308: the sprite images, the edited version of a character if its file exists.\<close>

definition load_avatars :: "'g server \<Rightarrow> character list \<Rightarrow> image list" where
  "load_avatars S chars =
     map (\<lambda>ch. load_avatar S
            (case edited_path ch of
               Some e \<Rightarrow> if e \<noteq> [] \<and> path_exists S e then e else cutout_path ch
             | None \<Rightarrow> cutout_path ch)) chars"

text \<open>
  Lines 362-371: the video is moved to the renders directory; an exception of
  \<^verbatim>\<open>composite_video\<close> leaves the handler unhandled.
\<close>

definition move_to_renders ::
  "'g server \<Rightarrow> (py_error + string) \<times> world \<Rightarrow> (http_error + string) \<times> world" where
  "move_to_renders S out =
     (case fst out of
        Inl e \<Rightarrow> (Inl (Unhandled e), snd out)
      | Inr out_path \<Rightarrow>
          let final_path = path_join (renders_dir S) (basename out_path)
          in (Inr final_path,
              (snd out)\<lparr>video_files := final_path # remove1 out_path (video_files (snd out))\<rparr>))"

definition generate_video ::
  "'g server \<Rightarrow> world \<Rightarrow> generate_request \<Rightarrow> (http_error + string) \<times> world" where
  "generate_video S w req =
     (if \<not> (10 \<le> duration_seconds req \<and> duration_seconds req \<le> 25) then
        (Inl (HTTPException 400 ''duration_seconds must be 10-25''), w)
      else
        let chars = db_characters S (character_ids req)
        in if chars = [] then (Inl (HTTPException 400 ''No valid characters found''), w)
           else
             let avatars = load_avatars S chars;
                 char_settings = request_settings req chars;
                 bg = bg_generate S (prompt req) (req_width req) (req_height req) (req_seed req)
             in move_to_renders S
                  (composite_video (platform S) w bg avatars (duration_seconds req) (req_fps req)
                     (req_width req, req_height req) (req_seed req) (Some char_settings)
                     (Some (prompt req))))"

text \<open>A three-point path and a platform for the concrete runs below.\<close>

definition example_path :: "point list" where
  "example_path = [(0, 0), (2, 4), (6, 1)]"

definition example_platform :: "nat platform" where
  "example_platform =
     \<lparr> rng = lcg_source, os_entropy = 0, smpl = None,
       rotated_size = (\<lambda>sz a. sz),
       mkdtemp = ''/tmp/frames_x'', gettempdir = ''/tmp'',
       ffmpeg_run = (\<lambda>job. True) \<rparr>"

definition empty_world :: world where
  "empty_world = \<lparr> directories = [], frame_files = [], encoder_runs = [], video_files = [] \<rparr>"

definition example_bg :: image where
  "example_bg = \<lparr> im_size = (768, 432), im_pixels = 0 \<rparr>"

text \<open>
  Sprite images and settings for the concrete runs: a circle-style sprite with an effective
  move range of 100 on a 768 by 432 canvas; an organic-style sprite based at \<open>(384, 20)\<close>
  next to a sprite fixed at \<open>(384, 40)\<close>, both 20 by 20 pixels; and two fixed sprites of
  which the first is 4 by 4 pixels.
\<close>

definition example_avatars :: "image list" where
  "example_avatars = [\<lparr> im_size = (4, 4), im_pixels = 1 \<rparr>, \<lparr> im_size = (100, 100), im_pixels = 2 \<rparr>]"

definition circle_settings :: char_settings where
  "circle_settings =
     no_settings\<lparr> position_x := Some 384, position_y := Some 216,
                  move_range := Some (100 / 432), path_type := Some ''circle'' \<rparr>"

definition depth_settings :: "nat \<rightharpoonup> char_settings" where
  "depth_settings =
     [0 \<mapsto> no_settings\<lparr> scale := Some 1, scale_variation := Some 1,
                          position_x := Some 384, position_y := Some 20,
                          path_type := Some ''organic'', breathe_amount := Some 0 \<rparr>,
      1 \<mapsto> no_settings\<lparr> scale := Some 1, scale_variation := Some 1,
                          fixed_position := Some True,
                          position_x := Some 384, position_y := Some 40,
                          micro_movement := Some 0, breathe_amount := Some 0 \<rparr>]"

definition small_avatars :: "image list" where
  "small_avatars = [\<lparr> im_size = (20, 20), im_pixels = 1 \<rparr>, \<lparr> im_size = (20, 20), im_pixels = 2 \<rparr>]"

definition still_settings :: "nat \<rightharpoonup> char_settings" where
  "still_settings =
     [0 \<mapsto> no_settings\<lparr> scale := Some 1, scale_variation := Some 1, rotation := Some 0,
                          fixed_position := Some True,
                          position_x := Some 384, position_y := Some 100,
                          micro_movement := Some 0, breathe_amount := Some 0 \<rparr>,
      1 \<mapsto> no_settings\<lparr> scale := Some 1, scale_variation := Some 1, rotation := Some 0,
                          fixed_position := Some True,
                          position_x := Some 384, position_y := Some 200,
                          micro_movement := Some 0, breathe_amount := Some 0 \<rparr>]"

definition tiny_avatars :: "image list" where
  "tiny_avatars = [\<lparr> im_size = (4, 4), im_pixels = 1 \<rparr>, \<lparr> im_size = (20, 20), im_pixels = 2 \<rparr>]"

section \<open>Properties of the sampler\<close>

lemma ease_in_out_range:
  assumes "0 \<le> s" "s \<le> 1"
  shows "0 \<le> ease_in_out s \<and> ease_in_out s \<le> 1"
proof (cases "s < 0.5")
  case True
  have "s ^ 3 \<le> (1/2) ^ 3"
    using True assms by (intro power_mono) auto
  then show ?thesis
    using True assms by (simp add: ease_in_out_def power3_eq_cube)
next
  case False
  define u where "u = - 2 * s + 2"
  have u: "0 \<le> u" "u \<le> 1"
    using False assms by (auto simp: u_def)
  have "u ^ 3 \<le> 1 ^ 3"
    using u by (intro power_mono) auto
  moreover have "0 \<le> u ^ 3"
    using u by simp
  ultimately show ?thesis
    using False by (simp add: ease_in_out_def u_def)
qed

lemma py_int_unit: "0 \<le> t \<Longrightarrow> t < 1 \<Longrightarrow> py_int t = 0"
  by (simp add: py_int_def floor_eq_iff)

lemma py_int_add1: "0 \<le> t \<Longrightarrow> py_int (t + 1) = py_int t + 1"
  by (simp add: py_int_def)


lemma segment_in_range:
  assumes "2 \<le> length points" "0 \<le> t" "t < 1"
  defines "n \<equiv> int (length points) - 1"
  shows "0 \<le> \<lfloor>t * of_int n\<rfloor>" "\<lfloor>t * of_int n\<rfloor> \<le> n - 1"
proof -
  have n: "1 \<le> n" using assms by simp
  show "0 \<le> \<lfloor>t * of_int n\<rfloor>" using assms n by simp
  have "t * of_int n < of_int n"
    using assms n by simp
  then have "\<lfloor>t * of_int n\<rfloor> < n" by (simp add: floor_less_iff)
  then show "\<lfloor>t * of_int n\<rfloor> \<le> n - 1" by simp
qed

text \<open>
  On the unit interval the sampler reads segment \<open>\<lfloor>t \<cdot> (len - 1)\<rfloor>\<close> and blends its two
  end points with the eased fractional part.
\<close>

lemma get_path_position_unit:
  assumes "2 \<le> length points" "0 \<le> t" "t < 1"
  shows "get_path_position points t =
     (let i = nat \<lfloor>t * (real (length points) - 1)\<rfloor>;
          s = ease_in_out (frac (t * (real (length points) - 1)))
      in Inr (fst (points ! i) + (fst (points ! Suc i) - fst (points ! i)) * s,
              snd (points ! i) + (snd (points ! Suc i) - snd (points ! i)) * s))"
proof -
  define n where "n = int (length points) - 1"
  define k where "k = \<lfloor>t * of_int n\<rfloor>"
  have k: "0 \<le> k" "k \<le> n - 1"
    using segment_in_range[OF assms] by (simp_all add: k_def n_def)
  have t0: "py_int t = 0" using assms by (simp add: py_int_unit)
  have nn: "0 \<le> t * of_int n" using assms k n_def by simp
  have pk: "py_int (t * of_int n) = k"
    using nn by (simp add: py_int_def k_def)
  have rn: "real_of_int n = real (length points) - 1"
    using assms by (simp add: n_def)
  have i1: "py_index points k = Inr (points ! nat k)"
    using k by (simp add: py_index_def n_def)
  have i2: "py_index points (k + 1) = Inr (points ! Suc (nat k))"
    using k by (simp add: py_index_def n_def nat_add_distrib)
  have ne: "points \<noteq> []" using assms by auto
  have fr: "t * of_int n - of_int k = frac (t * of_int n)"
    by (simp add: frac_def k_def)
  show ?thesis
    unfolding get_path_position_def
    using ne t0 pk k i1 i2 fr
    by (simp add: Let_def bind_err_def n_def[symmetric] rn[symmetric] k_def[symmetric] min_def)
qed

lemma get_path_position_periodic_nonneg:
  "0 \<le> t \<Longrightarrow> get_path_position points (t + 1) = get_path_position points t"
  unfolding get_path_position_def by (simp add: py_int_add1)

lemma blend_between:
  fixes a b s :: real
  assumes "0 \<le> s" "s \<le> 1" "lo \<le> a" "lo \<le> b" "a \<le> hi" "b \<le> hi"
  shows "lo \<le> a + (b - a) * s \<and> a + (b - a) * s \<le> hi"
proof -
  have e: "a + (b - a) * s = (1 - s) * a + s * b" by (simp add: algebra_simps)
  have "(1 - s) * lo + s * lo \<le> (1 - s) * a + s * b"
    using assms by (intro add_mono mult_left_mono) auto
  moreover have "(1 - s) * a + s * b \<le> (1 - s) * hi + s * hi"
    using assms by (intro add_mono mult_left_mono) auto
  ultimately show ?thesis unfolding e by (simp add: algebra_simps)
qed

text \<open>
  C10 (sampling range). For a path of at least two points and \<open>\<tau>\<close> in \<open>[0, 1)\<close>,
  \<^verbatim>\<open>get_path_position\<close> returns a point (no index error: the segment index \<open>i\<close> has
  \<open>i + 1\<close> inside the list), the point is the convex combination, with an eased weight
  \<open>s\<close> in \<open>[0, 1]\<close>, of the consecutive path points \<open>i\<close> and \<open>i + 1\<close>, and it lies in the
  bounding box of the path's points.
\<close>

theorem get_path_position_convex:
  assumes "2 \<le> length points" "0 \<le> \<tau>" "\<tau> < 1"
  shows "\<exists>i s x y.
           Suc i < length points \<and> 0 \<le> s \<and> s \<le> 1 \<and>
           get_path_position points \<tau> = Inr (x, y) \<and>
           x = (1 - s) * fst (points ! i) + s * fst (points ! Suc i) \<and>
           y = (1 - s) * snd (points ! i) + s * snd (points ! Suc i) \<and>
           Min (fst ` set points) \<le> x \<and> x \<le> Max (fst ` set points) \<and>
           Min (snd ` set points) \<le> y \<and> y \<le> Max (snd ` set points)"
proof -
  define i where "i = nat \<lfloor>\<tau> * (real (length points) - 1)\<rfloor>"
  define s where "s = ease_in_out (frac (\<tau> * (real (length points) - 1)))"
  define x where "x = fst (points ! i) + (fst (points ! Suc i) - fst (points ! i)) * s"
  define y where "y = snd (points ! i) + (snd (points ! Suc i) - snd (points ! i)) * s"
  have rn: "real (length points) - 1 = real_of_int (int (length points) - 1)"
    using assms by simp
  have "\<lfloor>\<tau> * (real (length points) - 1)\<rfloor> \<le> int (length points) - 1 - 1"
    unfolding rn by (rule segment_in_range(2)[OF assms])
  moreover have "0 \<le> \<lfloor>\<tau> * (real (length points) - 1)\<rfloor>"
    unfolding rn by (rule segment_in_range(1)[OF assms])
  ultimately have i: "Suc i < length points"
    unfolding i_def by linarith
  have s: "0 \<le> s" "s \<le> 1"
    using ease_in_out_range[of "frac (\<tau> * (real (length points) - 1))"]
    by (simp_all add: s_def frac_lt_1 less_imp_le)
  have g: "get_path_position points \<tau> = Inr (x, y)"
    using get_path_position_unit[OF assms] by (simp add: Let_def i_def s_def x_def y_def)
  have mem: "points ! i \<in> set points" "points ! Suc i \<in> set points"
    using i by simp_all
  have fx: "Min (fst ` set points) \<le> fst (points ! i)" "fst (points ! i) \<le> Max (fst ` set points)"
    "Min (fst ` set points) \<le> fst (points ! Suc i)" "fst (points ! Suc i) \<le> Max (fst ` set points)"
    using mem by simp_all
  have fy: "Min (snd ` set points) \<le> snd (points ! i)" "snd (points ! i) \<le> Max (snd ` set points)"
    "Min (snd ` set points) \<le> snd (points ! Suc i)" "snd (points ! Suc i) \<le> Max (snd ` set points)"
    using mem by simp_all
  have bx: "Min (fst ` set points) \<le> x \<and> x \<le> Max (fst ` set points)"
    unfolding x_def using blend_between[OF s fx(1) fx(3) fx(2) fx(4)] .
  have "by": "Min (snd ` set points) \<le> y \<and> y \<le> Max (snd ` set points)"
    unfolding y_def using blend_between[OF s fy(1) fy(3) fy(2) fy(4)] .
  have ex: "x = (1 - s) * fst (points ! i) + s * fst (points ! Suc i)"
    by (simp add: x_def algebra_simps)
  have ey: "y = (1 - s) * snd (points ! i) + s * snd (points ! Suc i)"
    by (simp add: y_def algebra_simps)
  show ?thesis
    using i s g ex ey bx "by" by blast
qed

theorem get_path_position_convex_witness:
  "2 \<le> length example_path \<and> (0::real) \<le> 3 / 4 \<and> (3 / 4 :: real) < 1 \<and>
   (\<exists>i s x y.
           Suc i < length example_path \<and> 0 \<le> s \<and> s \<le> 1 \<and>
           get_path_position example_path (3 / 4) = Inr (x, y) \<and>
           x = (1 - s) * fst (example_path ! i) + s * fst (example_path ! Suc i) \<and>
           y = (1 - s) * snd (example_path ! i) + s * snd (example_path ! Suc i) \<and>
           Min (fst ` set example_path) \<le> x \<and> x \<le> Max (fst ` set example_path) \<and>
           Min (snd ` set example_path) \<le> y \<and> y \<le> Max (snd ` set example_path))"
proof -
  have h: "2 \<le> length example_path" "(0::real) \<le> 3 / 4" "(3 / 4 :: real) < 1"
    by (simp_all add: example_path_def)
  show ?thesis
    using h get_path_position_convex[OF h] by blast
qed

text \<open>
  The arguments the frame loop gives the sampler (lines 443, 466, 472 and 473) are never
  negative: the frame time, an eased value of \<^verbatim>\<open>x % 1.0\<close>, and values of \<^verbatim>\<open>x % 1.0\<close>.
\<close>

lemma sampler_arguments_nonneg:
  "0 \<le> frame_time n_frames f" "0 \<le> py_mod1 x" "py_mod1 x < 1"
  "0 \<le> ease_in_out (py_mod1 x)" "ease_in_out (py_mod1 x) \<le> 1"
proof -
  show "0 \<le> frame_time n_frames f"
    by (simp add: frame_time_def)
  show m: "0 \<le> py_mod1 x" "py_mod1 x < 1"
    unfolding py_mod1_def by linarith+
  show "0 \<le> ease_in_out (py_mod1 x)" "ease_in_out (py_mod1 x) \<le> 1"
    using ease_in_out_range[of "py_mod1 x"] m by simp_all
qed




section \<open>The request handler's duration check\<close>

text \<open>
  C4 (validation boundary). A request with \<^verbatim>\<open>duration_seconds = 5\<close> is answered with the
  HTTP 400 validation error and the file system is untouched: no temporary directory, no
  frame, no encoder run, so no path was built and no frame rendered. A request with
  \<^verbatim>\<open>duration_seconds = 25\<close> is not answered with that error: it goes on to load the
  characters and, when there is one, to \<^verbatim>\<open>composite_video\<close> with a duration of 25.
\<close>

theorem generate_video_duration_boundary:
  "generate_video S w (req\<lparr>duration_seconds := 5\<rparr>) =
     (Inl (HTTPException 400 ''duration_seconds must be 10-25''), w) \<and>
   generate_video S w (req\<lparr>duration_seconds := 25\<rparr>) =
     (let chars = db_characters S (character_ids req)
      in if chars = [] then (Inl (HTTPException 400 ''No valid characters found''), w)
         else move_to_renders S
                (composite_video (platform S) w
                   (bg_generate S (prompt req) (req_width req) (req_height req) (req_seed req))
                   (load_avatars S chars) 25 (req_fps req) (req_width req, req_height req)
                   (req_seed req) (Some (request_settings (req\<lparr>duration_seconds := 25\<rparr>) chars))
                   (Some (prompt req)))) \<and>
   fst (generate_video S w (req\<lparr>duration_seconds := 25\<rparr>)) \<noteq>
     Inl (HTTPException 400 ''duration_seconds must be 10-25'')"
proof (intro conjI)
  show "generate_video S w (req\<lparr>duration_seconds := 5\<rparr>) =
     (Inl (HTTPException 400 ''duration_seconds must be 10-25''), w)"
    by (simp add: generate_video_def)
  show e: "generate_video S w (req\<lparr>duration_seconds := 25\<rparr>) =
     (let chars = db_characters S (character_ids req)
      in if chars = [] then (Inl (HTTPException 400 ''No valid characters found''), w)
         else move_to_renders S
                (composite_video (platform S) w
                   (bg_generate S (prompt req) (req_width req) (req_height req) (req_seed req))
                   (load_avatars S chars) 25 (req_fps req) (req_width req, req_height req)
                   (req_seed req) (Some (request_settings (req\<lparr>duration_seconds := 25\<rparr>) chars))
                   (Some (prompt req))))"
    by (simp add: generate_video_def Let_def)
  show "fst (generate_video S w (req\<lparr>duration_seconds := 25\<rparr>)) \<noteq>
     Inl (HTTPException 400 ''duration_seconds must be 10-25'')"
    unfolding e by (simp add: Let_def move_to_renders_def split: sum.splits)
qed

section \<open>The frame loop never raises\<close>

lemma py_int_wrap_bounds: "- 1 < t - of_int (py_int t) \<and> t - of_int (py_int t) < 1"
  unfolding py_int_def by (auto; linarith)

lemma py_int_bounds:
  assumes "- of_int n < x" "x < of_int n"
  shows "- n < py_int x \<and> py_int x < n"
proof (cases "0 \<le> x")
  case True
  have "\<lfloor>x\<rfloor> < n" using assms(2) by (simp add: floor_less_iff)
  moreover have "0 \<le> \<lfloor>x\<rfloor>" using True by simp
  moreover have "0 < n" using True assms(2) by linarith
  moreover have "py_int x = \<lfloor>x\<rfloor>" using True by (simp add: py_int_def)
  ultimately show ?thesis by linarith
next
  case False
  have "- n < \<lceil>x\<rceil>" using assms(1) by (simp add: less_ceiling_iff)
  moreover have "\<lceil>x\<rceil> \<le> 0" using False by (simp add: ceiling_le_iff)
  moreover have "0 < n" using False assms(1) by linarith
  moreover have "py_int x = \<lceil>x\<rceil>" using False by (simp add: py_int_def)
  ultimately show ?thesis by linarith
qed

lemma py_index_ok:
  assumes "- int (length xs) \<le> i" "i < int (length xs)"
  shows "\<exists>v. py_index xs i = Inr v"
  using assms by (simp add: py_index_def)

lemma get_path_position_total: "\<exists>p. get_path_position points t = Inr p"
proof (cases "points = []")
  case True
  then show ?thesis by (simp add: get_path_position_def)
next
  case False
  define n where "n = int (length points) - 1"
  define tl where "tl = t - of_int (py_int t)"
  define idx where "idx = min (py_int (tl * of_int n)) (n - 1)"
  have n0: "0 \<le> n" using False by (simp add: n_def Suc_leI)
  have tl: "- 1 < tl" "tl < 1" using py_int_wrap_bounds[of t] by (simp_all add: tl_def)
  have lo: "- (n + 1) \<le> idx"
  proof (cases "n = 0")
    case True
    then show ?thesis by (simp add: idx_def py_int_def)
  next
    case False
    then have n1: "1 \<le> n" using n0 by simp
    have "- of_int n < tl * of_int n"
      using tl n1 by (metis mult_minus_left mult_strict_right_mono of_int_0_less_iff
          mult_1 less_le_trans zero_less_one of_int_1_le_iff)
    moreover have "tl * of_int n < of_int n"
      using tl n1 by simp
    ultimately have "- n < py_int (tl * of_int n)"
      using py_int_bounds by blast
    then show ?thesis using n1 by (simp add: idx_def)
  qed
  have hi: "idx \<le> n - 1" by (simp add: idx_def)
  obtain p1 where p1: "py_index points idx = Inr p1"
    using py_index_ok[of points idx] lo hi by (auto simp: n_def)
  obtain p2 where p2: "py_index points (idx + 1) = Inr p2"
    using py_index_ok[of points "idx + 1"] lo hi by (auto simp: n_def)
  show ?thesis
    unfolding get_path_position_def
    using False p1 p2
    by (simp add: Let_def bind_err_def n_def[symmetric] tl_def[symmetric] idx_def[symmetric])
qed

lemma y_positions_total:
  "\<exists>keyed. y_positions motions t idxs = Inr keyed \<and> map fst keyed = idxs"
proof (induction idxs)
  case Nil
  then show ?case by simp
next
  case (Cons i rest)
  obtain pos where "get_path_position (control_points (motions ! i)) t = Inr pos"
    using get_path_position_total by blast
  with Cons show ?case by (auto simp: bind_err_def)
qed

lemma bind_err_total:
  assumes "\<exists>v. m = Inr v" "\<And>v. \<exists>r. k v = Inr r"
  shows "\<exists>r. bind_err m k = Inr r"
  using assms by (auto simp: bind_err_def)

lemma sorted_avatars_total:
  "\<exists>order. sorted_avatars motions n t = Inr order \<and> set order = {0..<n}"
proof (cases "list_all (\<lambda>i. control_points (motions ! i) \<noteq> []) [0..<n]")
  case True
  obtain keyed where k: "y_positions motions t [0..<n] = Inr keyed" "map fst keyed = [0..<n]"
    using y_positions_total by blast
  have "set (map fst (sort_key snd keyed)) = set (map fst keyed)"
    by simp
  then have "set (map fst (sort_key snd keyed)) = {0..<n}"
    unfolding k(2) by simp
  then show ?thesis
    using True k(1) by (simp add: sorted_avatars_def bind_err_def)
next
  case False
  then show ?thesis by (simp add: sorted_avatars_def)
qed

lemma sprite_transform_total: "\<exists>tr. sprite_transform cs motions t i = Inr tr"
  unfolding sprite_transform_def Let_def
  by (intro bind_err_total get_path_position_total) blast

lemma composite_sprites_total:
  "\<exists>fr'. composite_sprites rot cs avatars motions t order fr = Inr fr' \<and> canvas fr' = canvas fr"
proof (induction order arbitrary: fr)
  case Nil
  then show ?case by simp
next
  case (Cons i rest)
  obtain tr where tr: "sprite_transform cs motions t i = Inr tr"
    using sprite_transform_total by blast
  show ?case
    using Cons[of fr]
      Cons[of "fr\<lparr>layers := layers fr @
        [Layer (avatars ! i)
          (py_int (real_of_int (fst (im_size (avatars ! i))) * scale_x tr),
           py_int (real_of_int (snd (im_size (avatars ! i))) * scale_y tr))
          (anim_angle tr)
          (py_int (pos_x tr - real_of_int (fst (rot (py_int (real_of_int (fst (im_size (avatars ! i))) * scale_x tr),
              py_int (real_of_int (snd (im_size (avatars ! i))) * scale_y tr)) (anim_angle tr)) div 2)),
           py_int (pos_y tr - real_of_int (snd (rot (py_int (real_of_int (fst (im_size (avatars ! i))) * scale_x tr),
              py_int (real_of_int (snd (im_size (avatars ! i))) * scale_y tr)) (anim_angle tr)) div 2)))]\<rparr>"]
    by (simp add: tr bind_err_def Let_def split_beta)
qed

lemma render_frame_total: "\<exists>fr. render_frame rot cs bg avatars motions n_frames f = Inr fr"
proof -
  obtain order where "sorted_avatars motions (length avatars) (frame_time n_frames f) = Inr order"
    using sorted_avatars_total by blast
  then show ?thesis
    using composite_sprites_total[of rot cs avatars motions "frame_time n_frames f" order]
    by (auto simp: render_frame_def bind_err_def Let_def)
qed

lemma render_frames_result:
  "fst (render_frames rot cs bg avatars motions n_frames frames_dir fs w) = None \<and>
   directories (snd (render_frames rot cs bg avatars motions n_frames frames_dir fs w)) = directories w \<and>
   encoder_runs (snd (render_frames rot cs bg avatars motions n_frames frames_dir fs w)) = encoder_runs w \<and>
   video_files (snd (render_frames rot cs bg avatars motions n_frames frames_dir fs w)) = video_files w \<and>
   map fst (frame_files (snd (render_frames rot cs bg avatars motions n_frames frames_dir fs w))) =
     map fst (frame_files w) @ map (\<lambda>f. path_join frames_dir (frame_file_name f)) fs"
proof (induction fs arbitrary: w)
  case Nil
  then show ?case by simp
next
  case (Cons f fs)
  obtain fr where fr: "render_frame rot cs bg avatars motions n_frames f = Inr fr"
    using render_frame_total by blast
  show ?case
    using Cons[of "w\<lparr>frame_files := frame_files w @ [(path_join frames_dir (frame_file_name f), fr)]\<rparr>"]
    by (simp add: fr)
qed

section \<open>Frames written, the encoder run and the temporary directory\<close>

lemma composite_video_effects:
  fixes P :: "'g platform"
  shows "directories (snd (composite_video P w bg avatars d fps sz seed cs pr)) =
           mkdtemp P # directories w \<and>
         map fst (frame_files (snd (composite_video P w bg avatars d fps sz seed cs pr))) =
           map fst (frame_files w) @
           map (\<lambda>f. path_join (mkdtemp P) (frame_file_name f)) [0..<nat (d * fps)] \<and>
         (\<exists>job. encoder_runs (snd (composite_video P w bg avatars d fps sz seed cs pr)) =
                  encoder_runs w @ [job] \<and>
                enc_input job = path_join (mkdtemp P) ''f_%05d.png'' \<and>
                enc_framerate job = fps \<and> enc_rate job = fps \<and>
                enc_output job =
                  path_join (gettempdir P)
                    (''scene_'' @
                     str_nat (fst (randrange (rng P) 1000000
                        (fst (snd (job_motions P avatars sz seed cs pr))))) @ ''.mp4'') \<and>
                fst (composite_video P w bg avatars d fps sz seed cs pr) =
                  (if ffmpeg_run P job then Inr (enc_output job) else Inl EncoderError))"
proof -
  obtain width height where sz: "sz = (width, height)" by (cases sz)
  obtain motions g1 ptl where jm: "job_motions P avatars sz seed cs pr = (motions, g1, ptl)"
    by (cases "job_motions P avatars sz seed cs pr")
  define w1 where "w1 = w\<lparr>directories := mkdtemp P # directories w\<rparr>"
  define rf where "rf = render_frames (rotated_size P) (dict_get cs Map.empty)
       (bg\<lparr>im_size := (width, height)\<rparr>) avatars motions (d * fps) (mkdtemp P)
       [0..<nat (d * fps)] w1"
  have rf: "fst rf = None" "directories (snd rf) = directories w1"
    "encoder_runs (snd rf) = encoder_runs w1" "video_files (snd rf) = video_files w1"
    "map fst (frame_files (snd rf)) =
       map fst (frame_files w1) @ map (\<lambda>f. path_join (mkdtemp P) (frame_file_name f)) [0..<nat (d * fps)]"
    unfolding rf_def using render_frames_result by blast+
  obtain w2 where rf2: "rf = (None, w2)" using rf(1) by (cases rf) auto
  obtain k g2 where rr: "randrange (rng P) 1000000 g1 = (k, g2)"
    by (cases "randrange (rng P) 1000000 g1")
  show ?thesis
    using rf(2-5)
    unfolding composite_video_def sz
    by (simp add: jm[unfolded sz] Let_def rf_def[symmetric] w1_def[symmetric] rf2 rr)
       (simp add: w1_def)
qed


lemma str_nat_examples:
  "str_nat 0 = ''0''" "str_nat 9 = ''9''" "str_nat 10 = ''10''" "str_nat 42 = ''42''"
  "str_nat 119 = ''119''"
  by (simp_all add: str_nat.simps)

lemma frame_file_name_examples:
  "frame_file_name 0 = ''f_00000.png''" "frame_file_name 9 = ''f_00009.png''"
  "frame_file_name 10 = ''f_00010.png''" "frame_file_name 119 = ''f_00119.png''"
  by (simp_all add: frame_file_name_def pad5_def str_nat_examples) (simp_all add: numeral_eq_Suc)

text \<open>
  C5 (frame count). With a duration of 10 seconds at 12 frames per second
  \<^verbatim>\<open>composite_video\<close> writes exactly 120 frame images into its temporary directory, named
  by the zero-padded frame index from \<^verbatim>\<open>f_00000.png\<close> to \<^verbatim>\<open>f_00119.png\<close> in this order,
  and runs the encoder once, on the pattern \<^verbatim>\<open>f_%05d.png\<close> of that directory with
  framerate 12.
\<close>

theorem frame_count_10s_12fps:
  "map fst (frame_files (snd (composite_video P w bg avatars 10 12 sz seed cs pr))) =
     map fst (frame_files w) @
     map (\<lambda>f. path_join (mkdtemp P) (frame_file_name f)) [0..<120] \<and>
   length (frame_files (snd (composite_video P w bg avatars 10 12 sz seed cs pr))) =
     length (frame_files w) + 120 \<and>
   frame_file_name 0 = ''f_00000.png'' \<and> frame_file_name 119 = ''f_00119.png'' \<and>
   (\<exists>job. encoder_runs (snd (composite_video P w bg avatars 10 12 sz seed cs pr)) =
            encoder_runs w @ [job] \<and>
          enc_input job = path_join (mkdtemp P) ''f_%05d.png'' \<and>
          enc_framerate job = 12)"
proof -
  let ?cv = "composite_video P w bg avatars 10 12 sz seed cs pr"
  have names: "map fst (frame_files (snd ?cv)) =
     map fst (frame_files w) @ map (\<lambda>f. path_join (mkdtemp P) (frame_file_name f)) [0..<120]"
    using composite_video_effects[of P w bg avatars 10 12 sz seed cs pr] by simp
  have "length (map fst (frame_files (snd ?cv))) = length (frame_files w) + 120"
    unfolding names by simp
  then have len: "length (frame_files (snd ?cv)) = length (frame_files w) + 120"
    by simp
  have enc: "\<exists>job. encoder_runs (snd ?cv) = encoder_runs w @ [job] \<and>
          enc_input job = path_join (mkdtemp P) ''f_%05d.png'' \<and> enc_framerate job = 12"
    using composite_video_effects[of P w bg avatars 10 12 sz seed cs pr] by blast
  show ?thesis
    using names len enc frame_file_name_examples(1,4) by blast
qed

text \<open>
  C9 (temporary directory), as the code has it. \<^verbatim>\<open>composite_video\<close> creates the frame
  directory and nothing removes it: when the function returns the output path, and when
  the encoder run raises, the directory is still there.
\<close>

theorem frames_dir_kept:
  "directories (snd (composite_video P w bg avatars d fps sz seed cs pr)) =
     mkdtemp P # directories w \<and>
   mkdtemp P \<in> set (directories (snd (composite_video P w bg avatars d fps sz seed cs pr))) \<and>
   ((\<exists>out_path. fst (composite_video P w bg avatars d fps sz seed cs pr) = Inr out_path) \<or>
    fst (composite_video P w bg avatars d fps sz seed cs pr) = Inl EncoderError)"
proof -
  have d: "directories (snd (composite_video P w bg avatars d fps sz seed cs pr)) =
     mkdtemp P # directories w"
    using composite_video_effects[of P w bg avatars d fps sz seed cs pr] by blast
  obtain job where "fst (composite_video P w bg avatars d fps sz seed cs pr) =
      (if ffmpeg_run P job then Inr (enc_output job) else Inl EncoderError)"
    using composite_video_effects[of P w bg avatars d fps sz seed cs pr] by blast
  then have "(\<exists>out_path. fst (composite_video P w bg avatars d fps sz seed cs pr) = Inr out_path) \<or>
    fst (composite_video P w bg avatars d fps sz seed cs pr) = Inl EncoderError"
    by (cases "ffmpeg_run P job") auto
  with d show ?thesis by simp
qed

lemma job_motions_no_avatars:
  "job_motions P [] sz seed cs pr = ([], Random P seed, None)"
  by (simp add: job_motions_def split_beta)

text \<open>
  C9 as claimed fails: after a run that returns its output path, and after a run whose
  encoder fails, the temporary directory \<^verbatim>\<open>/tmp/frames_x\<close> still exists.
\<close>

theorem frames_dir_not_removed:
  "fst (composite_video example_platform empty_world example_bg [] 10 12 (768, 432) (Some 42)
          None None) = Inr ''/tmp/scene_42.mp4'' \<and>
   ''/tmp/frames_x'' \<in> set (directories (snd (composite_video example_platform empty_world
          example_bg [] 10 12 (768, 432) (Some 42) None None))) \<and>
   fst (composite_video (example_platform\<lparr>ffmpeg_run := \<lambda>job. False\<rparr>) empty_world example_bg
          [] 10 12 (768, 432) (Some 42) None None) = Inl EncoderError \<and>
   ''/tmp/frames_x'' \<in> set (directories (snd (composite_video
          (example_platform\<lparr>ffmpeg_run := \<lambda>job. False\<rparr>) empty_world example_bg [] 10 12
          (768, 432) (Some 42) None None)))"
proof -
  let ?ok = "composite_video example_platform empty_world example_bg [] 10 12 (768, 432) (Some 42)
          None None"
  let ?bad = "composite_video (example_platform\<lparr>ffmpeg_run := \<lambda>job. False\<rparr>) empty_world
          example_bg [] 10 12 (768, 432) (Some 42) None None"
  have name: "path_join (gettempdir example_platform)
      (''scene_'' @ str_nat (fst (randrange (rng example_platform) 1000000
          (fst (snd (job_motions example_platform [] (768, 432) (Some 42) None None))))) @ ''.mp4'')
      = ''/tmp/scene_42.mp4''"
    by (simp add: job_motions_no_avatars Random_def example_platform_def lcg_source_def
        randrange_def path_join_def str_nat_examples)
  obtain job where j: "enc_output job = ''/tmp/scene_42.mp4''"
      "fst ?ok = (if ffmpeg_run example_platform job then Inr (enc_output job) else Inl EncoderError)"
    using composite_video_effects[of example_platform empty_world example_bg "[]" 10 12
        "(768, 432)" "Some 42" None None] name by auto
  have ok: "fst ?ok = Inr ''/tmp/scene_42.mp4''"
    using j by (simp add: example_platform_def)
  have okd: "''/tmp/frames_x'' \<in> set (directories (snd ?ok))"
    using composite_video_effects[of example_platform empty_world example_bg "[]" 10 12
        "(768, 432)" "Some 42" None None]
    by (simp add: example_platform_def)
  obtain job' where "fst ?bad =
      (if ffmpeg_run (example_platform\<lparr>ffmpeg_run := \<lambda>job. False\<rparr>) job'
       then Inr (enc_output job') else Inl EncoderError)"
    using composite_video_effects[of "example_platform\<lparr>ffmpeg_run := \<lambda>job. False\<rparr>" empty_world
        example_bg "[]" 10 12 "(768, 432)" "Some 42" None None] by blast
  then have bad: "fst ?bad = Inl EncoderError" by simp
  have badd: "''/tmp/frames_x'' \<in> set (directories (snd ?bad))"
    using composite_video_effects[of "example_platform\<lparr>ffmpeg_run := \<lambda>job. False\<rparr>" empty_world
        example_bg "[]" 10 12 "(768, 432)" "Some 42" None None]
    by (simp add: example_platform_def)
  show ?thesis using ok okd bad badd by blast
qed

section \<open>Paths that stay at one point\<close>

lemma py_index_mem: "py_index xs i = Inr v \<Longrightarrow> v \<in> set xs"
  by (auto simp: py_index_def split: if_splits)

lemma get_path_position_constant:
  assumes "points \<noteq> []" "set points \<subseteq> {c}"
  shows "get_path_position points t = Inr c"
proof -
  define tl where "tl = t - of_int (py_int t)"
  define n where "n = int (length points) - 1"
  define idx where "idx = min (py_int (tl * of_int n)) (n - 1)"
  obtain p where p: "get_path_position points t = Inr p"
    using get_path_position_total by blast
  have unf: "get_path_position points t =
      bind_err (py_index points idx) (\<lambda>p1. bind_err (py_index points (idx + 1)) (\<lambda>p2.
        Inr (fst p1 + (fst p2 - fst p1) * ease_in_out (tl * of_int n - of_int idx),
             snd p1 + (snd p2 - snd p1) * ease_in_out (tl * of_int n - of_int idx))))"
    using assms(1) by (simp add: get_path_position_def Let_def tl_def n_def idx_def)
  obtain p1 where p1: "py_index points idx = Inr p1"
    using p unfolding unf by (cases "py_index points idx") (auto simp: bind_err_def)
  obtain p2 where p2: "py_index points (idx + 1) = Inr p2"
    using p unfolding unf p1 by (cases "py_index points (idx + 1)") (auto simp: bind_err_def)
  have "p1 = c" "p2 = c"
    using py_index_mem[OF p1] py_index_mem[OF p2] assms(2) by auto
  then show ?thesis
    unfolding unf p1 p2 by (simp add: bind_err_def)
qed

section \<open>The paths that are built\<close>

lemma randint_lower: "a \<le> fst (randint R a b g)"
  by (simp add: randint_def split_beta)

lemma micro_points_length:
  "length (fst (micro_points R width height bx by micro n ps g)) = length ps"
  by (induction ps arbitrary: g) (simp_all add: split_beta Let_def)

lemma circle_anchors_length:
  "length (fst (circle_anchors R width height margin bx by mv n ps st)) = length ps"
  by (induction ps arbitrary: st) (simp_all add: split_beta Let_def)

lemma figure8_anchors_length:
  "length (fst (figure8_anchors R width height margin bx by mv n ps st)) = length ps"
  by (induction ps arbitrary: st) (simp_all add: split_beta Let_def)

lemma wave_anchors_length:
  "length (wave_anchors width height margin bx by mv n) = nat n"
  by (simp add: wave_anchors_def)

lemma organic_legs_length:
  "length js \<le> length (fst (organic_legs R width height margin mv keys js g))"
proof (induction js arbitrary: g)
  case Nil
  then show ?case by simp
next
  case (Cons j js)
  define g2 where "g2 = snd (organic_between R width height margin mv (keys ! j)
      (keys ! ((j + 1) mod length keys)) [0..<nat (fst (randint R 1 2 g))] (snd (randint R 1 2 g)))"
  have "length js \<le> length (fst (organic_legs R width height margin mv keys js g2))"
    by (rule Cons.IH)
  then show ?case
    by (simp add: split_beta Let_def g2_def)
qed

lemma organic_key_points_length:
  "length (fst (organic_key_points R width height margin bx by mv ks st)) = length ks"
  by (induction ks arbitrary: st) (simp_all add: split_beta Let_def)

lemma organic_anchors_length:
  "4 \<le> length (fst (organic_anchors R width height margin bx by mv st))"
proof -
  define keys where "keys = fst (organic_key_points R width height margin bx by mv [0..<3] st)"
  have k: "length keys = 3"
    unfolding keys_def by (simp add: organic_key_points_length)
  have "length [0..<length keys] \<le> length (fst (organic_legs R width height margin mv keys
      [0..<length keys] (snd (snd (organic_key_points R width height margin bx by mv [0..<3] st)))))"
    by (rule organic_legs_length)
  then show ?thesis
    unfolding organic_anchors_def using k by (simp add: split_beta Let_def keys_def)
qed

lemma anchor_points_length:
  "4 \<le> length (fst (anchor_points R width height margin bx by cs st))"
proof -
  define g1 where "g1 = snd (randint R 6 9 (snd st))"
  define n where "n = fst (randint R 6 9 (snd st))"
  have n: "6 \<le> n" unfolding n_def by (rule randint_lower)
  then have nn: "4 \<le> nat n" by simp
  show ?thesis
    unfolding anchor_points_def
    using nn
    by (simp add: split_beta Let_def n_def circle_anchors_length figure8_anchors_length
        wave_anchors_length organic_anchors_length)
qed

lemma length_concat_const:
  "(\<And>x. x \<in> set xs \<Longrightarrow> length (f x) = k) \<Longrightarrow> length (concat (map f xs)) = k * length xs"
  by (induction xs) simp_all

lemma spline_points_length:
  "1 \<le> k \<Longrightarrow> length (spline_points width height margin k pts) = k * length pts"
  unfolding spline_points_def
  by (subst length_concat_const[where k = k]) (auto simp: Let_def)

lemma random_key_points_length:
  "length (fst (random_key_points R width height margin ps g)) = length ps"
  by (induction ps arbitrary: g) (simp_all add: split_beta Let_def)

lemma random_path_length: "20 \<le> length (fst (random_path R width height margin g))"
proof -
  have "4 \<le> nat (fst (randint R 4 6 g))"
    using randint_lower[of 4 R 6 g] by simp
  then show ?thesis
    unfolding random_path_def
    by (simp add: split_beta Let_def spline_points_length random_key_points_length)
qed

lemma sprite_motion_path_length:
  "8 \<le> length (control_points (fst (sprite_motion R sm width height seed tp cs i av st)))"
proof -
  have a: "8 \<le> length (spline_points width height m 4
      (fst (anchor_points R width height m bx by c s)))" for m bx "by" c s
    using anchor_points_length[of R width height m bx "by" c s]
    by (simp add: spline_points_length)
  have r: "8 \<le> length (fst (random_path R width height m g))" for m g
    using random_path_length[of R width height m g] by simp
  show ?thesis
    unfolding sprite_motion_def
    by (simp add: split_beta Let_def micro_points_length a r)
qed

lemma build_motions_path_lengths:
  "list_all (\<lambda>m. 8 \<le> length (control_points m))
     (fst (build_motions R sm width height seed tp cs avs i st))"
proof (induction avs arbitrary: i st)
  case Nil
  then show ?case by simp
next
  case (Cons av avs)
  show ?case
    using Cons sprite_motion_path_length[of R sm width height seed tp cs i av st]
    by (simp add: split_beta Let_def)
qed

lemma build_motions_length:
  "length (fst (build_motions R sm width height seed tp cs avs i st)) = length avs"
  by (induction avs arbitrary: i st) (simp_all add: split_beta Let_def)

text \<open>Every control-point path that \<^verbatim>\<open>composite_video\<close> builds has at least eight points.\<close>

lemma built_paths_length:
  "list_all (\<lambda>path. 8 \<le> length path) (built_paths P avatars sz seed cs pr)"
proof -
  have "list_all (\<lambda>m. 8 \<le> length (control_points m))
          (fst (job_motions P avatars sz seed cs pr))"
    unfolding job_motions_def by (simp add: split_beta Let_def build_motions_path_lengths)
  then show ?thesis
    unfolding built_paths_def by (simp add: list_all_iff)
qed

section \<open>The circle style\<close>

lemma rng_ok_lcg: "rng_ok lcg_source"
  by (simp add: rng_ok_def lcg_source_def)

lemma polar_distance:
  fixes r a :: real
  assumes "0 \<le> r"
  shows "sqrt ((cos a * r)\<^sup>2 + (sin a * r)\<^sup>2) = r"
proof -
  have "(cos a * r)\<^sup>2 + (sin a * r)\<^sup>2 = ((cos a)\<^sup>2 + (sin a)\<^sup>2) * r\<^sup>2"
    by (simp only: power_mult_distrib distrib_right)
  also have "\<dots> = r\<^sup>2"
    by (simp only: sin_cos_squared_add3 mult_1 sin_cos_squared_add2)
  finally show ?thesis
    using assms by simp
qed

lemma clamp_inactive:
  fixes v lo hi :: real
  assumes "lo \<le> v" "v \<le> hi"
  shows "max lo (min hi v) = v"
  using assms by simp

lemma circle_anchors_ring:
  assumes ok: "rng_ok R" and mv: "0 \<le> mv"
    and box: "margin \<le> bx - mv" "bx + mv \<le> real_of_int width - margin"
             "margin \<le> by - mv" "by + mv \<le> real_of_int height - margin"
  shows "\<forall>(x, y) \<in> set (fst (circle_anchors R width height margin bx by mv n ps st)).
           0.7 * mv \<le> sqrt ((x - bx)\<^sup>2 + (y - by)\<^sup>2) \<and> sqrt ((x - bx)\<^sup>2 + (y - by)\<^sup>2) \<le> mv"
proof (induction ps arbitrary: st)
  case Nil
  then show ?case by simp
next
  case (Cons p ps)
  define a where "a = real p * 2 * pi / real_of_int n"
  define u where "u = fst (rnd_random R (snd st))"
  define r where "r = mv * (0.7 + u * 0.3)"
  have u: "0 \<le> u" "u < 1"
    using ok by (simp_all add: rng_ok_def u_def)
  have f: "0.7 + u * 0.3 \<le> 1" "0.7 \<le> 0.7 + u * 0.3"
    using u by simp_all
  have "mv * 0.7 \<le> mv * (0.7 + u * 0.3)"
    by (rule mult_left_mono[OF f(2) mv])
  moreover have "mv * (0.7 + u * 0.3) \<le> mv * 1"
    by (rule mult_left_mono[OF f(1) mv])
  ultimately have r: "0.7 * mv \<le> r" "r \<le> mv"
    unfolding r_def by (simp_all add: mult.commute)
  have r0: "0 \<le> r" using r mv by linarith
  have "\<bar>cos a * r\<bar> \<le> 1 * r"
    unfolding abs_mult using r0 by (intro mult_mono) auto
  then have cx: "- mv \<le> cos a * r" "cos a * r \<le> mv"
    using r by linarith+
  have "\<bar>sin a * r\<bar> \<le> 1 * r"
    unfolding abs_mult using r0 by (intro mult_mono) auto
  then have sy: "- mv \<le> sin a * r" "sin a * r \<le> mv"
    using r by linarith+
  have px: "max margin (min (real_of_int width - margin) (bx + cos a * r)) = bx + cos a * r"
    using cx box by (intro clamp_inactive) linarith+
  have py: "max margin (min (real_of_int height - margin) (by + sin a * r)) = by + sin a * r"
    using sy box by (intro clamp_inactive) linarith+
  have d: "sqrt ((bx + cos a * r - bx)\<^sup>2 + (by + sin a * r - by)\<^sup>2) = r"
    using polar_distance[OF r0, of a] by simp
  have hd: "0.7 * mv \<le> sqrt ((bx + cos a * r - bx)\<^sup>2 + (by + sin a * r - by)\<^sup>2) \<and>
            sqrt ((bx + cos a * r - bx)\<^sup>2 + (by + sin a * r - by)\<^sup>2) \<le> mv"
    unfolding d using r by simp
  have r': "r = mv * (7 / 10 + u * 3 / 10)"
    by (simp add: r_def)
  have step: "fst (circle_anchors R width height margin bx by mv n (p # ps) st) =
      (bx + cos a * r, by + sin a * r) #
      fst (circle_anchors R width height margin bx by mv n ps (a, snd (rnd_random R (snd st))))"
    using px[unfolded r'] py[unfolded r']
    by (simp add: split_beta Let_def a_def[symmetric] u_def[symmetric] r')
  show ?case
    unfolding step using hd Cons.IH by simp
qed

lemma anchor_points_circle:
  assumes "path_type cs = Some ''circle''"
  shows "fst (anchor_points R width height margin bx by cs st) =
     fst (circle_anchors R width height margin bx by
            (dict_get (move_range cs) 0.4 * real_of_int (min width height))
            (fst (randint R 6 9 (snd st))) [0..<nat (fst (randint R 6 9 (snd st)))]
            (fst st, snd (choice R [''circle'', ''figure8'', ''organic'', ''wave'']
                            (snd (randint R 6 9 (snd st))))))"
  using assms by (simp add: anchor_points_def split_beta Let_def dict_get_def)

lemma circle_first_anchor:
  assumes ok: "rng_ok R" and mv: "0 \<le> mv"
    and out: "real_of_int width - margin \<le> bx + 0.7 * mv"
    and box: "margin \<le> real_of_int width - margin" "margin \<le> by"
             "by \<le> real_of_int height - margin"
  shows "fst (circle_anchors R width height margin bx by mv n (0 # ps) st) =
     (real_of_int width - margin, by) #
     fst (circle_anchors R width height margin bx by mv n ps (0, snd (rnd_random R (snd st))))"
proof -
  define u where "u = fst (rnd_random R (snd st))"
  have u: "0 \<le> u"
    using ok by (simp add: rng_ok_def u_def)
  have "mv * 0.7 \<le> mv * (0.7 + u * 0.3)"
    using u mv by (intro mult_left_mono) simp_all
  then have "real_of_int width - margin \<le> bx + mv * (7 / 10 + u * 3 / 10)"
    using out by simp
  then have px: "max margin (min (real_of_int width - margin) (bx + mv * (7 / 10 + u * 3 / 10))) =
      real_of_int width - margin"
    using box(1) by simp
  have py: "max margin (min (real_of_int height - margin) by) = by"
    using box(2,3) by simp
  show ?thesis
    using px py by (simp add: split_beta Let_def u_def[symmetric])
qed

text \<open>
  C8 (circle radius), as the code has it. For the circle style with an effective move
  range of 100 and any seed, every anchor lies between 70 and 100 from the base position
  provided the clamp to the margins leaves the circle alone, that is, the square of half
  side 100 around the base lies inside the margin box.
\<close>

theorem circle_radius_bound:
  assumes "rng_ok R" and "path_type cs = Some ''circle''"
    and "dict_get (move_range cs) 0.4 * real_of_int (min width height) = 100"
    and "margin \<le> base_x - 100" "base_x + 100 \<le> real_of_int width - margin"
    and "margin \<le> base_y - 100" "base_y + 100 \<le> real_of_int height - margin"
  shows "\<forall>(x, y) \<in> set (fst (anchor_points R width height margin base_x base_y cs st)).
           70 \<le> sqrt ((x - base_x)\<^sup>2 + (y - base_y)\<^sup>2) \<and>
           sqrt ((x - base_x)\<^sup>2 + (y - base_y)\<^sup>2) \<le> 100"
proof -
  have "\<forall>(x, y) \<in> set (fst (circle_anchors R width height margin base_x base_y 100 n ps s)).
           0.7 * 100 \<le> sqrt ((x - base_x)\<^sup>2 + (y - base_y)\<^sup>2) \<and>
           sqrt ((x - base_x)\<^sup>2 + (y - base_y)\<^sup>2) \<le> 100" for n ps s
    using assms(1,4-7) by (intro circle_anchors_ring) simp_all
  then show ?thesis
    unfolding anchor_points_circle[OF assms(2)] assms(3) by simp
qed

theorem circle_radius_bound_witness:
  "path_type circle_settings = Some ''circle'' \<and>
   dict_get (move_range circle_settings) 0.4 * real_of_int (min 768 432) = 100 \<and>
   (0.15 * 432 :: real) \<le> 384 - 100 \<and> (384 + 100 :: real) \<le> real_of_int 768 - 0.15 * 432 \<and>
   (0.15 * 432 :: real) \<le> 216 - 100 \<and> (216 + 100 :: real) \<le> real_of_int 432 - 0.15 * 432 \<and>
   list_all (\<lambda>(x, y). 70 \<le> sqrt ((x - 384)\<^sup>2 + (y - 216)\<^sup>2) \<and>
                      sqrt ((x - 384)\<^sup>2 + (y - 216)\<^sup>2) \<le> 100)
     (fst (anchor_points lcg_source 768 432 (0.15 * 432) 384 216 circle_settings
             (0, rnd_seed lcg_source 7)))"
proof -
  have h: "path_type circle_settings = Some ''circle''"
    "dict_get (move_range circle_settings) 0.4 * real_of_int (min 768 432) = 100"
    "(0.15 * 432 :: real) \<le> 384 - 100" "(384 + 100 :: real) \<le> real_of_int 768 - 0.15 * 432"
    "(0.15 * 432 :: real) \<le> 216 - 100" "(216 + 100 :: real) \<le> real_of_int 432 - 0.15 * 432"
    by (simp_all add: circle_settings_def no_settings_def dict_get_def)
  have "list_all (\<lambda>(x, y). 70 \<le> sqrt ((x - 384)\<^sup>2 + (y - 216)\<^sup>2) \<and>
                      sqrt ((x - 384)\<^sup>2 + (y - 216)\<^sup>2) \<le> 100)
     (fst (anchor_points lcg_source 768 432 (0.15 * 432) 384 216 circle_settings
             (0, rnd_seed lcg_source 7)))"
    unfolding list_all_iff by (rule circle_radius_bound[OF rng_ok_lcg h])
  with h show ?thesis
    by blast
qed

text \<open>
  C8 as claimed fails when the clamp is active: with the base at \<open>(700, 216)\<close> on a
  768 by 432 canvas (margin 64.8), seed 7 and an effective move range of 100, the first
  anchor is clamped to \<open>(703.2, 216)\<close>, at distance 3.2 from the base.
\<close>

theorem circle_anchor_clamped:
  "(3516 / 5, 216) \<in> set (fst (anchor_points lcg_source 768 432 (0.15 * real_of_int (min 768 432))
       700 216 circle_settings (0, rnd_seed lcg_source 7))) \<and>
   sqrt ((3516 / 5 - 700)\<^sup>2 + (216 - 216)\<^sup>2) = 16 / 5 \<and> (16 / 5 :: real) < 70"
proof -
  have n: "6 \<le> fst (randint lcg_source 6 9 g)" for g
    by (rule randint_lower)
  have "[0..<nat (fst (randint lcg_source 6 9 g))] = 0 # [1..<nat (fst (randint lcg_source 6 9 g))]"
    for g using n[of g] by (simp add: upt_conv_Cons)
  then have "fst (anchor_points lcg_source 768 432 (0.15 * real_of_int (min 768 432)) 700 216
        circle_settings (0, rnd_seed lcg_source 7)) =
      fst (circle_anchors lcg_source 768 432 (0.15 * real_of_int (min 768 432)) 700 216 100
        (fst (randint lcg_source 6 9 (rnd_seed lcg_source 7)))
        (0 # [1..<nat (fst (randint lcg_source 6 9 (rnd_seed lcg_source 7)))])
        (0, snd (choice lcg_source [''circle'', ''figure8'', ''organic'', ''wave'']
                   (snd (randint lcg_source 6 9 (rnd_seed lcg_source 7))))))"
    by (subst anchor_points_circle)
       (simp_all add: circle_settings_def no_settings_def dict_get_def)
  also have "\<dots> = (real_of_int 768 - 0.15 * real_of_int (min 768 432), 216) #
      fst (circle_anchors lcg_source 768 432 (0.15 * real_of_int (min 768 432)) 700 216 100
        (fst (randint lcg_source 6 9 (rnd_seed lcg_source 7)))
        [1..<nat (fst (randint lcg_source 6 9 (rnd_seed lcg_source 7)))]
        (0, snd (rnd_random lcg_source (snd (0::real, snd (choice lcg_source
                   [''circle'', ''figure8'', ''organic'', ''wave'']
                   (snd (randint lcg_source 6 9 (rnd_seed lcg_source 7)))))))))"
    by (rule circle_first_anchor[OF rng_ok_lcg]) simp_all
  finally have "(real_of_int 768 - 0.15 * real_of_int (min 768 432), 216) \<in>
      set (fst (anchor_points lcg_source 768 432 (0.15 * real_of_int (min 768 432)) 700 216
        circle_settings (0, rnd_seed lcg_source 7)))"
    by simp
  moreover have "real_of_int 768 - 0.15 * real_of_int (min 768 432) = 3516 / 5"
    by simp
  moreover have "sqrt ((3516 / 5 - 700)\<^sup>2 + (216 - 216)\<^sup>2) = 16 / 5"
    by (simp add: real_sqrt_abs)
  ultimately show ?thesis
    by simp
qed


section \<open>The paths depend on the seed and the settings only\<close>

lemma sprite_motion_no_smpl:
  "sprite_motion R None width height seed tp cs i av st =
   sprite_motion R None width height seed' tp' cs i av' st"
  by (simp add: sprite_motion_def)

lemma build_motions_no_smpl:
  assumes "length avs = length avs'"
  shows "build_motions R None width height seed tp cs avs i st =
         build_motions R None width height seed' tp' cs avs' i st"
  using assms
proof (induction avs avs' arbitrary: i st rule: list_induct2)
  case Nil
  then show ?case by simp
next
  case (Cons av avs av' avs')
  have "sprite_motion R None width height seed tp cs i av st =
        sprite_motion R None width height seed' tp' cs i av' st"
    by (rule sprite_motion_no_smpl)
  then show ?case
    using Cons.IH by (simp add: split_beta Let_def)
qed

text \<open>
  C2 (determinism). Two runs of \<^verbatim>\<open>composite_video\<close> with the same integer seed, canvas
  size and settings, the same number of sprites and no enhancement module build the same
  control-point paths, whatever the sprite images, the background, the prompt, the
  duration, the frame rate and the temporary directory are. (A run without a seed starts
  its generator from the operating system and is not covered.)
\<close>

theorem paths_deterministic:
  assumes "smpl P = None" "smpl P' = None" "rng P = rng P'"
    and "length avatars = length avatars'"
  shows "built_paths P avatars sz (Some s) cs pr = built_paths P' avatars' sz (Some s) cs pr'"
proof -
  have "job_motions P avatars sz (Some s) cs pr = job_motions P' avatars' sz (Some s) cs pr'"
    unfolding job_motions_def
    using assms(1-3) build_motions_no_smpl[OF assms(4)]
    by (simp add: split_beta Let_def Random_def)
  then show ?thesis
    by (simp add: built_paths_def)
qed

theorem paths_deterministic_witness:
  "smpl example_platform = None \<and>
   smpl (example_platform\<lparr>mkdtemp := ''/tmp/frames_y'', os_entropy := 99\<rparr>) = None \<and>
   rng example_platform = rng (example_platform\<lparr>mkdtemp := ''/tmp/frames_y'', os_entropy := 99\<rparr>) \<and>
   length example_avatars = length (rev example_avatars) \<and>
   built_paths example_platform example_avatars (768, 432) (Some 7)
     (Some [0 \<mapsto> circle_settings]) (Some ''a calm walk'') =
   built_paths (example_platform\<lparr>mkdtemp := ''/tmp/frames_y'', os_entropy := 99\<rparr>)
     (rev example_avatars) (768, 432) (Some 7) (Some [0 \<mapsto> circle_settings]) None"
proof -
  have h: "smpl example_platform = None"
    "smpl (example_platform\<lparr>mkdtemp := ''/tmp/frames_y'', os_entropy := 99\<rparr>) = None"
    "rng example_platform = rng (example_platform\<lparr>mkdtemp := ''/tmp/frames_y'', os_entropy := 99\<rparr>)"
    "length example_avatars = length (rev example_avatars)"
    by (simp_all add: example_platform_def)
  show ?thesis
    using h paths_deterministic[OF h] by blast
qed


section \<open>The position and the scale of a transform\<close>

text \<open>The position of a transform is the path sampled at the eased, speed-scaled time.\<close>

lemma sprite_transform_position:
  assumes "sprite_transform cs motions t i = Inr tr"
  shows "get_path_position (control_points (motions ! i))
           (ease_in_out (py_mod1 (t * dict_get (path_speed (dict_get (cs i) no_settings)) 1.0 * 1.5)))
         = Inr (pos_x tr, pos_y tr)"
proof -
  obtain pos where p: "get_path_position (control_points (motions ! i))
           (ease_in_out (py_mod1 (t * dict_get (path_speed (dict_get (cs i) no_settings)) 1.0 * 1.5)))
         = Inr pos"
    using get_path_position_total by blast
  obtain np where n: "get_path_position (control_points (motions ! i))
      (py_mod1 (ease_in_out (py_mod1 (t * dict_get (path_speed (dict_get (cs i) no_settings)) 1.0 * 1.5)) + 0.02))
      = Inr np"
    using get_path_position_total by blast
  obtain pp where pp: "get_path_position (control_points (motions ! i))
      (py_mod1 (ease_in_out (py_mod1 (t * dict_get (path_speed (dict_get (cs i) no_settings)) 1.0 * 1.5)) - 0.02))
      = Inr pp"
    using get_path_position_total by blast
  have "pos_x tr = fst pos \<and> pos_y tr = snd pos"
    using assms unfolding sprite_transform_def Let_def p n pp bind_err_def
    by auto
  then show ?thesis
    using p by simp
qed

lemma sprite_transform_steady_scale:
  assumes "sprite_transform cs motions t i = Inr tr"
    and "motion_breathe_amount (motions ! i) = 0" "pulse_amount (motions ! i) = 0"
    and "scale_target (motions ! i) = scale_base (motions ! i)"
  shows "scale_x tr = scale_base (motions ! i) \<and> scale_y tr = scale_base (motions ! i)"
proof -
  obtain pos where p: "get_path_position (control_points (motions ! i))
           (ease_in_out (py_mod1 (t * dict_get (path_speed (dict_get (cs i) no_settings)) 1.0 * 1.5)))
         = Inr pos"
    using get_path_position_total by blast
  obtain np where n: "get_path_position (control_points (motions ! i))
      (py_mod1 (ease_in_out (py_mod1 (t * dict_get (path_speed (dict_get (cs i) no_settings)) 1.0 * 1.5)) + 0.02))
      = Inr np"
    using get_path_position_total by blast
  obtain pp where pp: "get_path_position (control_points (motions ! i))
      (py_mod1 (ease_in_out (py_mod1 (t * dict_get (path_speed (dict_get (cs i) no_settings)) 1.0 * 1.5)) - 0.02))
      = Inr pp"
    using get_path_position_total by blast
  show ?thesis
    using assms unfolding sprite_transform_def Let_def p n pp bind_err_def
    by auto
qed

section \<open>What a frame is made of\<close>

text \<open>
  What the loop over the sorted sprites adds to a frame: for every sprite of the order, in
  this order, the layer of \<^const>\<open>sprite_layer\<close> if there is one.
\<close>

lemma composite_sprites_layers:
  "composite_sprites rot cs avatars motions t order fr =
     Inr (fr\<lparr>layers := layers fr @
        concat (map (\<lambda>j. case sprite_transform cs motions t j of
                            Inl e \<Rightarrow> []
                          | Inr tj \<Rightarrow> (case sprite_layer rot (avatars ! j) tj of
                                         None \<Rightarrow> []
                                       | Some l \<Rightarrow> [l])) order)\<rparr>)"
proof (induction order arbitrary: fr)
  case Nil
  then show ?case by simp
next
  case (Cons j rest)
  obtain tj where tj: "sprite_transform cs motions t j = Inr tj"
    using sprite_transform_total by blast
  show ?case
  proof (cases "sprite_layer rot (avatars ! j) tj")
    case None
    then have "composite_sprites rot cs avatars motions t (j # rest) fr =
        composite_sprites rot cs avatars motions t rest fr"
      by (auto simp: tj bind_err_def sprite_layer_def split_beta Let_def split: if_splits)
    then show ?thesis
      using Cons[of fr] None by (simp add: tj)
  next
    case (Some l)
    then have "composite_sprites rot cs avatars motions t (j # rest) fr =
        composite_sprites rot cs avatars motions t rest (fr\<lparr>layers := layers fr @ [l]\<rparr>)"
      by (auto simp: tj bind_err_def sprite_layer_def split_beta Let_def split: if_splits)
    then show ?thesis
      using Cons[of "fr\<lparr>layers := layers fr @ [l]\<rparr>"] Some by (simp add: tj)
  qed
qed

lemma sorted_avatars_perm:
  "\<exists>order. sorted_avatars motions n t = Inr order \<and> set order = {0..<n} \<and> length order = n"
proof (cases "list_all (\<lambda>i. control_points (motions ! i) \<noteq> []) [0..<n]")
  case True
  obtain keyed where k: "y_positions motions t [0..<n] = Inr keyed" "map fst keyed = [0..<n]"
    using y_positions_total by blast
  have "set (map fst (sort_key snd keyed)) = set (map fst keyed)"
    by simp
  then have s: "set (map fst (sort_key snd keyed)) = {0..<n}"
    unfolding k(2) by simp
  have "length (map fst (sort_key snd keyed)) = length (map fst keyed)"
    by simp
  then have l: "length (map fst (sort_key snd keyed)) = n"
    unfolding k(2) by simp
  show ?thesis
    using True k(1) s l by (simp add: sorted_avatars_def bind_err_def)
next
  case False
  then show ?thesis by (simp add: sorted_avatars_def)
qed

lemma render_frames_frames:
  "map (Inr \<circ> snd) (frame_files (snd (render_frames rot cs bg avatars motions n_frames dir fs w))) =
     map (Inr \<circ> snd) (frame_files w) @ map (render_frame rot cs bg avatars motions n_frames) fs"
proof (induction fs arbitrary: w)
  case Nil
  then show ?case by simp
next
  case (Cons f fs)
  obtain fr where fr: "render_frame rot cs bg avatars motions n_frames f = Inr fr"
    using render_frame_total by blast
  show ?case
    using Cons[of "w\<lparr>frame_files := frame_files w @ [(path_join dir (frame_file_name f), fr)]\<rparr>"]
    by (simp add: fr)
qed

text \<open>The frame images a run writes are the frames the loop renders from the motions it built.\<close>

lemma composite_video_frames:
  "map (Inr \<circ> snd) (frame_files (snd (composite_video P w bg avatars d fps sz seed cs pr))) =
     map (Inr \<circ> snd) (frame_files w) @
     map (render_frame (rotated_size P) (dict_get cs Map.empty) (bg\<lparr>im_size := sz\<rparr>) avatars
            (fst (job_motions P avatars sz seed cs pr)) (d * fps)) [0..<nat (d * fps)]"
proof -
  obtain width height where sz: "sz = (width, height)" by (cases sz)
  obtain motions g1 ptl where jm: "job_motions P avatars sz seed cs pr = (motions, g1, ptl)"
    by (cases "job_motions P avatars sz seed cs pr")
  define w1 where "w1 = w\<lparr>directories := mkdtemp P # directories w\<rparr>"
  define rf where "rf = render_frames (rotated_size P) (dict_get cs Map.empty)
       (bg\<lparr>im_size := (width, height)\<rparr>) avatars motions (d * fps) (mkdtemp P)
       [0..<nat (d * fps)] w1"
  have fr: "map (Inr \<circ> snd) (frame_files (snd rf)) =
      map (Inr \<circ> snd) (frame_files w1) @
      map (render_frame (rotated_size P) (dict_get cs Map.empty) (bg\<lparr>im_size := (width, height)\<rparr>)
             avatars motions (d * fps)) [0..<nat (d * fps)]"
    unfolding rf_def by (rule render_frames_frames)
  have "fst rf = None"
    unfolding rf_def using render_frames_result by blast
  then obtain w2 where rf2: "rf = (None, w2)" by (cases rf) auto
  obtain k g2 where rr: "randrange (rng P) 1000000 g1 = (k, g2)"
    by (cases "randrange (rng P) 1000000 g1")
  have "frame_files (snd (composite_video P w bg avatars d fps sz seed cs pr)) = frame_files w2"
    unfolding composite_video_def sz
    by (simp add: jm[unfolded sz] Let_def rf_def[symmetric] w1_def[symmetric] rf2 rr)
  then show ?thesis
    using fr unfolding rf2 sz by (simp add: w1_def jm[unfolded sz])
qed

section \<open>The motions built for organic and fixed sprites\<close>

lemma organic_between_clamped:
  "\<forall>p \<in> set (fst (organic_between R width height margin mv a b ks g)). margin \<le> snd p"
  by (induction ks arbitrary: g) (simp_all add: split_beta Let_def)

lemma organic_key_points_clamped:
  "\<forall>p \<in> set (fst (organic_key_points R width height margin bx by mv ks st)). margin \<le> snd p"
  by (induction ks arbitrary: st) (simp_all add: split_beta Let_def)

lemma organic_legs_clamped:
  assumes "\<forall>p \<in> set keys. margin \<le> snd p" "\<forall>j \<in> set js. j < length keys"
  shows "\<forall>p \<in> set (fst (organic_legs R width height margin mv keys js g)). margin \<le> snd p"
  using assms(2)
proof (induction js arbitrary: g)
  case Nil
  then show ?case by simp
next
  case (Cons j js)
  have k: "margin \<le> snd (keys ! j)"
    using assms(1) Cons.prems by simp
  have r: "\<forall>p \<in> set (fst (organic_legs R width height margin mv keys js g')). margin \<le> snd p" for g'
    using Cons.IH Cons.prems by simp
  show ?case
    using k
    by (auto simp: split_beta Let_def dest: r[rule_format] organic_between_clamped[rule_format])
qed

text \<open>
  The organic style starts its anchors with the base position as it is given; every other
  anchor is clamped to the margins.
\<close>

lemma organic_anchors_shape:
  "\<exists>rest. fst (organic_anchors R width height margin bx by mv st) = (bx, by) # rest \<and>
          (\<forall>p \<in> set rest. margin \<le> snd p)"
proof -
  define kp where "kp = organic_key_points R width height margin bx by mv [0..<3] st"
  have k: "\<forall>p \<in> set (fst kp). margin \<le> snd p"
    unfolding kp_def by (rule organic_key_points_clamped)
  have "\<forall>p \<in> set (fst (organic_legs R width height margin mv (fst kp) [0..<length (fst kp)]
      (snd (snd kp)))). margin \<le> snd p"
    using k by (intro organic_legs_clamped) simp_all
  then show ?thesis
    unfolding organic_anchors_def by (simp add: split_beta Let_def kp_def)
qed

lemma anchor_points_organic:
  assumes "path_type cs = Some ''organic''"
  shows "\<exists>rest. fst (anchor_points R width height margin bx by cs st) = (bx, by) # rest \<and>
          (\<forall>p \<in> set rest. margin \<le> snd p)"
proof -
  have "fst (anchor_points R width height margin bx by cs st) =
      fst (organic_anchors R width height margin bx by
         (dict_get (move_range cs) 0.4 * real_of_int (min width height))
         (fst st, snd (choice R [''circle'', ''figure8'', ''organic'', ''wave'']
                            (snd (randint R 6 9 (snd st))))))"
    using assms by (simp add: anchor_points_def split_beta Let_def dict_get_def)
  then show ?thesis
    using organic_anchors_shape by simp
qed

lemma concat_blocks_all:
  assumes "\<And>j. j \<in> set js \<Longrightarrow> \<forall>p \<in> set (blk j). Q p"
  shows "\<forall>p \<in> set (concat (map blk js)). Q p"
  using assms by auto

lemma spline_points_shape:
  assumes "\<forall>p \<in> set rest. margin \<le> snd p"
  shows "\<exists>tail. spline_points width height margin k (a # rest) = a # tail \<and>
           (\<forall>p \<in> set tail. margin \<le> snd p)"
proof -
  define pts where "pts = a # rest"
  define inter where "inter = (\<lambda>j. map (\<lambda>s.
             let t = real s / real k;
                 x = catmull_rom (fst (pts ! nat ((int j - 1) mod int (length pts)))) (fst (pts ! j))
                       (fst (pts ! nat ((int j + 1) mod int (length pts))))
                       (fst (pts ! nat ((int j + 2) mod int (length pts)))) t;
                 y = catmull_rom (snd (pts ! nat ((int j - 1) mod int (length pts)))) (snd (pts ! j))
                       (snd (pts ! nat ((int j + 1) mod int (length pts))))
                       (snd (pts ! nat ((int j + 2) mod int (length pts)))) t
             in (max margin (min (real_of_int width - margin) x),
                 max margin (min (real_of_int height - margin) y)))
            [1..<k])"
  define blk where "blk = (\<lambda>j. pts ! j # inter j)"
  have sp: "spline_points width height margin k pts = concat (map blk [0..<length pts])"
    unfolding spline_points_def blk_def inter_def Let_def by (rule refl)
  have up: "[0..<length pts] = 0 # [Suc 0..<length pts]"
    by (rule upt_conv_Cons) (simp add: pts_def)
  have i: "\<forall>p \<in> set (inter j). margin \<le> snd p" for j
    unfolding inter_def Let_def by (simp add: image_iff)
  have blk_later: "\<forall>p \<in> set (blk j). margin \<le> snd p" if "Suc 0 \<le> j" "j < length pts" for j
  proof -
    have "pts ! j = rest ! (j - 1)" "j - 1 < length rest"
      using that by (simp_all add: pts_def nth_Cons')
    then have "pts ! j \<in> set rest"
      by simp
    then show ?thesis
      using assms i[of j] by (simp add: blk_def)
  qed
  have later: "\<forall>p \<in> set (concat (map blk [Suc 0..<length pts])). margin \<le> snd p"
    by (rule concat_blocks_all) (rule blk_later, simp_all)
  have "spline_points width height margin k pts =
      a # (inter 0 @ concat (map blk [Suc 0..<length pts]))"
    unfolding sp up by (simp add: blk_def pts_def)
  moreover have "\<forall>p \<in> set (inter 0 @ concat (map blk [Suc 0..<length pts])). margin \<le> snd p"
    using i[of 0] later by auto
  ultimately show ?thesis
    unfolding pts_def by blast
qed

lemma get_path_position_at_one:
  assumes "2 \<le> length points"
  shows "get_path_position points 1 = Inr (points ! 0)"
proof -
  have "get_path_position points (0 + 1) = get_path_position points 0"
    by (rule get_path_position_periodic_nonneg) simp
  moreover have "get_path_position points 0 = Inr (points ! 0)"
    using get_path_position_unit[OF assms, of 0] by (simp add: Let_def ease_in_out_def)
  ultimately show ?thesis
    by simp
qed

lemma get_path_position_at_half:
  assumes len: "4 \<le> length points" and tl: "\<forall>p \<in> set (tl points). m \<le> snd p"
  shows "\<exists>p. get_path_position points (1 / 2) = Inr p \<and> m \<le> snd p"
proof -
  define i where "i = nat \<lfloor>1 / 2 * (real (length points) - 1)\<rfloor>"
  define s where "s = ease_in_out (frac (1 / 2 * (real (length points) - 1)))"
  have l2: "2 \<le> length points" using len by simp
  have rn: "real (length points) - 1 = real_of_int (int (length points) - 1)"
    using len by simp
  have up: "\<lfloor>1 / 2 * (real (length points) - 1)\<rfloor> \<le> int (length points) - 1 - 1"
    unfolding rn by (rule segment_in_range(2)[OF l2]) simp_all
  have "1 \<le> 1 / 2 * (real (length points) - 1)"
    using len by simp
  then have lo: "1 \<le> \<lfloor>1 / 2 * (real (length points) - 1)\<rfloor>"
    by (simp add: le_floor_iff)
  have i: "1 \<le> i" "Suc i < length points"
    unfolding i_def using lo up by linarith+
  have mem: "points ! i \<in> set (tl points)" "points ! Suc i \<in> set (tl points)"
  proof -
    have "points ! i = tl points ! (i - 1)" "i - 1 < length (tl points)"
      using i by (simp_all add: nth_tl)
    then show "points ! i \<in> set (tl points)" by simp
    have "points ! Suc i = tl points ! i" "i < length (tl points)"
      using i by (simp_all add: nth_tl)
    then show "points ! Suc i \<in> set (tl points)" by simp
  qed
  have s: "0 \<le> s" "s \<le> 1"
    using ease_in_out_range[of "frac (1 / 2 * (real (length points) - 1))"]
    by (simp_all add: s_def frac_lt_1 less_imp_le)
  define hi where "hi = max (snd (points ! i)) (snd (points ! Suc i))"
  have "m \<le> snd (points ! i) + (snd (points ! Suc i) - snd (points ! i)) * s"
    using blend_between[OF s, of m "snd (points ! i)" "snd (points ! Suc i)" hi] mem tl
    by (simp add: hi_def)
  moreover have "get_path_position points (1 / 2) =
      Inr (fst (points ! i) + (fst (points ! Suc i) - fst (points ! i)) * s,
           snd (points ! i) + (snd (points ! Suc i) - snd (points ! i)) * s)"
    using get_path_position_unit[OF l2, of "1 / 2"] by (simp add: Let_def i_def s_def)
  ultimately show ?thesis
    by simp
qed

text \<open>What \<^const>\<open>sprite_motion\<close> builds from the settings of a sprite, without enhancement.\<close>

lemma sprite_motion_scales:
  assumes "cs_map i = Some cs" "scale cs = Some a" "scale_variation cs = Some 1"
    and "breathe_amount cs = Some 0"
  shows "scale_base (fst (sprite_motion R None width height seed tp cs_map i av st)) = a \<and>
         scale_target (fst (sprite_motion R None width height seed tp cs_map i av st)) = a \<and>
         motion_breathe_amount (fst (sprite_motion R None width height seed tp cs_map i av st)) = 0 \<and>
         pulse_amount (fst (sprite_motion R None width height seed tp cs_map i av st)) = 0"
  using assms by (simp add: sprite_motion_def split_beta Let_def dict_get_def)

lemma micro_points_still:
  "set (fst (micro_points R width height bx by (Some 0) n ps g)) \<subseteq> {(bx, by)}"
  by (induction ps arbitrary: g) (simp_all add: split_beta Let_def dict_get_def)

lemma sprite_motion_fixed:
  assumes "cs_map i = Some cs" "position_x cs = Some b_x" "position_y cs = Some b_y"
    and "fixed_position cs = Some True" "micro_movement cs = Some 0"
  shows "set (control_points (fst (sprite_motion R None width height seed tp cs_map i av st)))
           \<subseteq> {(b_x, b_y)}"
  using assms micro_points_still
  by (simp add: sprite_motion_def split_beta Let_def dict_get_def)

lemma sprite_motion_organic:
  assumes "cs_map i = Some cs" "position_x cs = Some b_x" "position_y cs = Some b_y"
    and "fixed_position cs = None" "path_type cs = Some ''organic''"
  shows "\<exists>tail. control_points (fst (sprite_motion R None width height seed tp cs_map i av st)) =
           (b_x, b_y) # tail \<and>
           (\<forall>p \<in> set tail. 0.15 * real_of_int (min width height) \<le> snd p)"
proof -
  define margin where "margin = 0.15 * real_of_int (min width height)"
  define st3 where "st3 = (dict_get (rotation cs) (fst (uniform R (- 8) 8
      (snd (uniform R 0.8 1.25 (snd (uniform R 0.35 0.6 (fst st))))))),
      snd (uniform R (- 8) 8 (snd (uniform R 0.8 1.25 (snd (uniform R 0.35 0.6 (fst st)))))))"
  have cp: "control_points (fst (sprite_motion R None width height seed tp cs_map i av st)) =
      spline_points width height margin 4 (fst (anchor_points R width height margin b_x b_y cs st3))"
    using assms(1-4)
    by (simp add: sprite_motion_def split_beta Let_def dict_get_def margin_def st3_def)
  obtain rest where r: "fst (anchor_points R width height margin b_x b_y cs st3) = (b_x, b_y) # rest"
      "\<forall>p \<in> set rest. margin \<le> snd p"
    using anchor_points_organic[OF assms(5)] by blast
  show ?thesis
    unfolding cp r(1) margin_def[symmetric]
    by (rule spline_points_shape[OF r(2)])
qed

lemma sprite_motion_fixed_angle:
  assumes "cs_map i = Some cs" "position_x cs = Some b_x" "position_y cs = Some b_y"
    and "fixed_position cs = Some True" "rotation cs = Some a"
  shows "angle_base (fst (sprite_motion R None width height seed tp cs_map i av st)) = a"
  using assms by (simp add: sprite_motion_def split_beta Let_def dict_get_def)

text \<open>At frame time zero a resting sprite of steady scale one and no rotation is not transformed.\<close>

lemma resting_transform_at_zero:
  assumes "control_points (motions ! i) \<noteq> []" "set (control_points (motions ! i)) \<subseteq> {(x, y)}"
    and "motion_breathe_amount (motions ! i) = 0" "pulse_amount (motions ! i) = 0"
    and "scale_base (motions ! i) = 1" "scale_target (motions ! i) = 1"
    and "angle_base (motions ! i) = 0"
  shows "sprite_transform cs motions 0 i =
           Inr \<lparr> pos_x = x, pos_y = y, scale_x = 1, scale_y = 1, anim_angle = 0 \<rparr>"
proof -
  have c: "get_path_position (control_points (motions ! i)) t = Inr (x, y)" for t
    by (rule get_path_position_constant[OF assms(1,2)])
  show ?thesis
    unfolding sprite_transform_def Let_def c bind_err_def
    using assms(3-7) by simp
qed

section \<open>Sprites too small to draw\<close>

text \<open>
  C6 (degenerate sprite). In any frame, a sprite whose target pixel size
  \<open>(int(w \<cdot> sx), int(h \<cdot> sy))\<close> has a side below five pixels adds no layer and raises
  nothing: the frame is rendered, every sprite is in the depth order, and the frame's
  layers are, in this order, exactly the layers of the other sprites, each resized,
  rotated and pasted as lines 537-555 do for it.
\<close>

theorem degenerate_sprite_skipped:
  assumes "sprite_transform cs motions (frame_time n_frames f) i = Inr tr"
    and "py_int (real_of_int (fst (im_size (avatars ! i))) * scale_x tr) < 5 \<or>
         py_int (real_of_int (snd (im_size (avatars ! i))) * scale_y tr) < 5"
  shows "\<exists>order.
           sorted_avatars motions (length avatars) (frame_time n_frames f) = Inr order \<and>
           set order = {0..<length avatars} \<and> length order = length avatars \<and>
           render_frame rot cs bg avatars motions n_frames f =
             Inr \<lparr>canvas = bg,
                  layers = concat (map (\<lambda>j.
                     if j = i then []
                     else case sprite_transform cs motions (frame_time n_frames f) j of
                            Inl e \<Rightarrow> []
                          | Inr tj \<Rightarrow> (case sprite_layer rot (avatars ! j) tj of
                                         None \<Rightarrow> []
                                       | Some l \<Rightarrow> [l])) order)\<rparr>"
proof -
  let ?t = "frame_time n_frames f"
  let ?L = "\<lambda>j. case sprite_transform cs motions ?t j of
                            Inl e \<Rightarrow> []
                          | Inr tj \<Rightarrow> (case sprite_layer rot (avatars ! j) tj of
                                         None \<Rightarrow> []
                                       | Some l \<Rightarrow> [l])"
  obtain order where o: "sorted_avatars motions (length avatars) ?t = Inr order"
      "set order = {0..<length avatars}" "length order = length avatars"
    using sorted_avatars_perm by blast
  have "sprite_layer rot (avatars ! i) tr = None"
    using assms(2) by (auto simp: sprite_layer_def split_beta Let_def)
  then have "?L i = []"
    by (simp add: assms(1))
  then have eq: "map (\<lambda>j. if j = i then [] else ?L j) order = map ?L order"
    by (intro map_cong) auto
  have "render_frame rot cs bg avatars motions n_frames f =
      Inr \<lparr>canvas = bg, layers = concat (map ?L order)\<rparr>"
    unfolding render_frame_def Let_def o(1) bind_err_def
    by (simp add: composite_sprites_layers)
  then have "render_frame rot cs bg avatars motions n_frames f =
      Inr \<lparr>canvas = bg, layers = concat (map (\<lambda>j. if j = i then [] else ?L j) order)\<rparr>"
    by (simp only: eq)
  with o show ?thesis
    by blast
qed

lemma still_settings_at:
  "still_settings 0 = Some (no_settings\<lparr> scale := Some 1, scale_variation := Some 1, rotation := Some 0,
                          fixed_position := Some True,
                          position_x := Some 384, position_y := Some 100,
                          micro_movement := Some 0, breathe_amount := Some 0 \<rparr>)"
  "still_settings (Suc 0) = Some (no_settings\<lparr> scale := Some 1, scale_variation := Some 1, rotation := Some 0,
                          fixed_position := Some True,
                          position_x := Some 384, position_y := Some 200,
                          micro_movement := Some 0, breathe_amount := Some 0 \<rparr>)"
  by (simp_all add: still_settings_def)

theorem degenerate_sprite_skipped_witness:
  "sprite_transform still_settings
     (fst (job_motions example_platform tiny_avatars (768, 432) (Some 7) (Some still_settings) None))
     (frame_time 120 0) 0 =
     Inr \<lparr> pos_x = 384, pos_y = 100, scale_x = 1, scale_y = 1, anim_angle = 0 \<rparr> \<and>
   py_int (real_of_int (fst (im_size (tiny_avatars ! 0))) * 1) < 5 \<and>
   render_frame (\<lambda>sz a. sz) still_settings example_bg tiny_avatars
     (fst (job_motions example_platform tiny_avatars (768, 432) (Some 7) (Some still_settings) None))
     120 0 =
     Inr \<lparr>canvas = example_bg,
          layers = [Layer \<lparr> im_size = (20, 20), im_pixels = 2 \<rparr> (20, 20) 0 (374, 190)]\<rparr>"
proof -
  let ?av0 = "\<lparr> im_size = (4, 4), im_pixels = 1 \<rparr>"
  let ?av1 = "\<lparr> im_size = (20, 20), im_pixels = 2 \<rparr>"
  let ?tr = "\<lparr> pos_x = 384, pos_y = 100, scale_x = 1, scale_y = 1, anim_angle = 0 \<rparr>"
  define st0 where "st0 = (Random example_platform (Some 7), None :: string option)"
  define m0 where "m0 = fst (sprite_motion lcg_source None 768 432 (Some 7) [] still_settings 0 ?av0 st0)"
  define m1 where "m1 = fst (sprite_motion lcg_source None 768 432 (Some 7) [] still_settings (Suc 0) ?av1
      (snd (sprite_motion lcg_source None 768 432 (Some 7) [] still_settings 0 ?av0 st0)))"
  have jm: "fst (job_motions example_platform tiny_avatars (768, 432) (Some 7) (Some still_settings) None)
      = [m0, m1]"
    unfolding job_motions_def tiny_avatars_def m0_def m1_def st0_def
    by (simp add: split_beta Let_def dict_get_def example_platform_def)
  have t: "frame_time 120 0 = 0"
    by (simp add: frame_time_def)
  have ne0: "control_points m0 \<noteq> []"
    using sprite_motion_path_length[of lcg_source None 768 432 "Some 7" "[]" still_settings 0 ?av0 st0]
    unfolding m0_def by auto
  have "8 \<le> length (control_points m1)"
    unfolding m1_def by (rule sprite_motion_path_length)
  then have ne1: "control_points m1 \<noteq> []"
    by auto
  have c0: "set (control_points m0) \<subseteq> {(384, 100)}"
    unfolding m0_def
    by (rule sprite_motion_fixed[where cs_map = still_settings and i = 0,
          OF still_settings_at(1)]) (simp_all add: no_settings_def)
  have c1: "set (control_points m1) \<subseteq> {(384, 200)}"
    unfolding m1_def
    by (rule sprite_motion_fixed[where cs_map = still_settings and i = "Suc 0",
          OF still_settings_at(2)]) (simp_all add: no_settings_def)
  have s0: "scale_base m0 = 1 \<and> scale_target m0 = 1 \<and> motion_breathe_amount m0 = 0 \<and>
      pulse_amount m0 = 0"
    unfolding m0_def
    by (rule sprite_motion_scales[where cs_map = still_settings and i = 0,
          OF still_settings_at(1)]) (simp_all add: no_settings_def)
  have s1: "scale_base m1 = 1 \<and> scale_target m1 = 1 \<and> motion_breathe_amount m1 = 0 \<and>
      pulse_amount m1 = 0"
    unfolding m1_def
    by (rule sprite_motion_scales[where cs_map = still_settings and i = "Suc 0",
          OF still_settings_at(2)]) (simp_all add: no_settings_def)
  have a0: "angle_base m0 = 0"
    unfolding m0_def
    by (rule sprite_motion_fixed_angle[where cs_map = still_settings and i = 0,
          OF still_settings_at(1)]) (simp_all add: no_settings_def)
  have a1: "angle_base m1 = 0"
    unfolding m1_def
    by (rule sprite_motion_fixed_angle[where cs_map = still_settings and i = "Suc 0",
          OF still_settings_at(2)]) (simp_all add: no_settings_def)
  have tr0: "sprite_transform still_settings [m0, m1] (frame_time 120 0) 0 = Inr ?tr"
    unfolding t
    by (rule resting_transform_at_zero) (simp_all add: ne0 c0 s0 a0)
  have tr1: "sprite_transform still_settings [m0, m1] (frame_time 120 0) (Suc 0) =
      Inr \<lparr> pos_x = 384, pos_y = 200, scale_x = 1, scale_y = 1, anim_angle = 0 \<rparr>"
    unfolding t
    by (rule resting_transform_at_zero) (simp_all add: ne1 c1 s1 a1)
  have small: "py_int (real_of_int (fst (im_size (tiny_avatars ! 0))) * 1) < 5"
    by (simp add: tiny_avatars_def py_int_def)
  have h2: "py_int (real_of_int (fst (im_size (tiny_avatars ! 0))) * scale_x ?tr) < 5 \<or>
            py_int (real_of_int (snd (im_size (tiny_avatars ! 0))) * scale_y ?tr) < 5"
    using small by simp
  obtain order where o:
    "sorted_avatars [m0, m1] (length tiny_avatars) (frame_time 120 0) = Inr order"
    "render_frame (\<lambda>sz a. sz) still_settings example_bg tiny_avatars [m0, m1] 120 0 =
       Inr \<lparr>canvas = example_bg,
            layers = concat (map (\<lambda>j.
               if j = 0 then []
               else case sprite_transform still_settings [m0, m1] (frame_time 120 0) j of
                      Inl e \<Rightarrow> []
                    | Inr tj \<Rightarrow> (case sprite_layer (\<lambda>sz a. sz) (tiny_avatars ! j) tj of
                                   None \<Rightarrow> []
                                 | Some l \<Rightarrow> [l])) order)\<rparr>"
    using degenerate_sprite_skipped[OF tr0 h2, of "\<lambda>sz a. sz" example_bg] by blast
  have k: "get_path_position (control_points m0) t = Inr (384, 100)"
    "get_path_position (control_points m1) t = Inr (384, 200)" for t
    using get_path_position_constant[OF ne0 c0] get_path_position_constant[OF ne1 c1] by simp_all
  have up: "[0..<length tiny_avatars] = [0, Suc 0]"
    by (simp add: tiny_avatars_def upt_rec)
  have "sorted_avatars [m0, m1] (length tiny_avatars) (frame_time 120 0) = Inr [0, Suc 0]"
    unfolding sorted_avatars_def up
    by (simp add: ne0 ne1 k bind_err_def)
  then have order: "order = [0, Suc 0]"
    using o(1) by simp
  have l1: "sprite_layer (\<lambda>sz a. sz) (tiny_avatars ! Suc 0)
              \<lparr> pos_x = 384, pos_y = 200, scale_x = 1, scale_y = 1, anim_angle = 0 \<rparr> =
            Some (Layer ?av1 (20, 20) 0 (374, 190))"
    by (simp add: sprite_layer_def tiny_avatars_def py_int_def)
  have "render_frame (\<lambda>sz a. sz) still_settings example_bg tiny_avatars [m0, m1] 120 0 =
     Inr \<lparr>canvas = example_bg, layers = [Layer ?av1 (20, 20) 0 (374, 190)]\<rparr>"
    unfolding o(2) order by (simp add: tr1 l1)
  with tr0 small show ?thesis
    unfolding jm by blast
qed

section \<open>The depth order of a frame\<close>

lemma py_int_ge:
  assumes "0 \<le> k" "of_int k \<le> v"
  shows "k \<le> py_int v"
proof -
  have "0 \<le> v" using assms by (meson of_int_0_le_iff order_trans)
  then have "py_int v = \<lfloor>v\<rfloor>" by (simp add: py_int_def)
  then show ?thesis using assms(2) by (simp add: le_floor_iff)
qed

lemma eased_last_frame: "ease_in_out (py_mod1 (1 * 1 * 1.5)) = 1 / 2"
proof -
  have m: "py_mod1 (1 * 1 * 1.5) = 1 / 2"
    by (simp add: py_mod1_def)
  show ?thesis
    unfolding m by (simp add: ease_in_out_def power3_eq_cube)
qed

text \<open>
  A frame at time \<open>t = 1\<close> with two sprites of 20 by 20 pixels and steady scale one: sprite 0
  on a path that starts at \<open>(x0, y0)\<close> and has \<open>y \<ge> lo\<close> at every other point, sprite 1
  resting at \<open>(x1, y1)\<close>, and \<open>y0 \<le> y1\<close>. Sprite 0 is composited first, pasted from its
  position at the eased time \<open>1/2\<close>.
\<close>

lemma last_frame_layers:
  assumes t: "frame_time n_frames f = 1"
    and c0: "control_points m0 = (x0, y0) # tail0" "\<forall>p \<in> set tail0. lo \<le> snd p"
            "4 \<le> length (control_points m0)"
    and c1: "control_points m1 \<noteq> []" "set (control_points m1) \<subseteq> {(x1, y1)}"
    and y: "y0 \<le> y1"
    and s0: "motion_breathe_amount m0 = 0" "pulse_amount m0 = 0" "scale_base m0 = 1"
            "scale_target m0 = 1"
    and s1: "motion_breathe_amount m1 = 0" "pulse_amount m1 = 0" "scale_base m1 = 1"
            "scale_target m1 = 1"
    and sp: "path_speed (dict_get (cs 0) no_settings) = None"
            "path_speed (dict_get (cs (Suc 0)) no_settings) = None"
    and av: "im_size av0 = (20, 20)" "im_size av1 = (20, 20)"
    and lo: "64 \<le> lo"
  shows "sorted_avatars [m0, m1] (length [av0, av1]) (frame_time n_frames f) = Inr [0, Suc 0] \<and>
         (\<exists>a0 a1 px py.
            render_frame (\<lambda>sz a. sz) cs bg [av0, av1] [m0, m1] n_frames f =
              Inr \<lparr>canvas = bg,
                   layers = [Layer av0 (20, 20) a0 (px, py),
                             Layer av1 (20, 20) a1 (py_int (x1 - 10), py_int (y1 - 10))]\<rparr> \<and>
            54 \<le> py)"
proof -
  let ?ms = "[m0, m1]"
  have k0: "get_path_position (control_points m0) 1 = Inr (x0, y0)"
    using get_path_position_at_one[of "control_points m0"] c0(1,3) by simp
  have k1: "get_path_position (control_points m1) t = Inr (x1, y1)" for t
    by (rule get_path_position_constant[OF c1])
  have ne0: "control_points m0 \<noteq> []"
    using c0(1) by simp
  have up: "[0..<length [av0, av1]] = [0, Suc 0]"
    by (simp add: upt_rec)
  have order: "sorted_avatars ?ms (length [av0, av1]) 1 = Inr [0, Suc 0]"
    unfolding sorted_avatars_def up
    using y by (simp add: ne0 c1(1) k0 k1 bind_err_def)
  obtain t0 where t0: "sprite_transform cs ?ms 1 0 = Inr t0"
    using sprite_transform_total by blast
  obtain t1 where t1: "sprite_transform cs ?ms 1 (Suc 0) = Inr t1"
    using sprite_transform_total by blast
  have d: "dict_get (path_speed (dict_get (cs 0) no_settings)) 1.0 = (1 :: real)"
    "dict_get (path_speed (dict_get (cs (Suc 0)) no_settings)) 1.0 = (1 :: real)"
    using sp by (simp_all add: dict_get_def)
  have "get_path_position (control_points (?ms ! 0))
          (ease_in_out (py_mod1 (1 * dict_get (path_speed (dict_get (cs 0) no_settings)) 1.0 * 1.5)))
        = Inr (pos_x t0, pos_y t0)"
    by (rule sprite_transform_position[OF t0])
  then have p0: "get_path_position (control_points m0) (1 / 2) = Inr (pos_x t0, pos_y t0)"
    unfolding d eased_last_frame by simp
  have "\<forall>p \<in> set (tl (control_points m0)). lo \<le> snd p"
    using c0(1,2) by simp
  from get_path_position_at_half[OF c0(3) this]
  have y0: "lo \<le> pos_y t0"
    unfolding p0 by simp
  have "get_path_position (control_points (?ms ! Suc 0))
          (ease_in_out (py_mod1 (1 * dict_get (path_speed (dict_get (cs (Suc 0)) no_settings)) 1.0 * 1.5)))
        = Inr (pos_x t1, pos_y t1)"
    by (rule sprite_transform_position[OF t1])
  then have p1: "pos_x t1 = x1" "pos_y t1 = y1"
    by (simp_all add: k1)
  have sc0: "scale_x t0 = 1 \<and> scale_y t0 = 1"
    using sprite_transform_steady_scale[OF t0] s0 by simp
  have sc1: "scale_x t1 = 1 \<and> scale_y t1 = 1"
    using sprite_transform_steady_scale[OF t1] s1 by simp
  have twenty: "py_int 20 = 20"
    by (simp add: py_int_def)
  have l0: "sprite_layer (\<lambda>sz a. sz) av0 t0 =
      Some (Layer av0 (20, 20) (anim_angle t0) (py_int (pos_x t0 - 10), py_int (pos_y t0 - 10)))"
    using sc0 by (simp add: sprite_layer_def av twenty)
  have l1: "sprite_layer (\<lambda>sz a. sz) av1 t1 =
      Some (Layer av1 (20, 20) (anim_angle t1) (py_int (x1 - 10), py_int (y1 - 10)))"
    using sc1 by (simp add: sprite_layer_def av twenty p1)
  have rf: "render_frame (\<lambda>sz a. sz) cs bg [av0, av1] ?ms n_frames f =
      Inr \<lparr>canvas = bg,
           layers = [Layer av0 (20, 20) (anim_angle t0) (py_int (pos_x t0 - 10), py_int (pos_y t0 - 10)),
                     Layer av1 (20, 20) (anim_angle t1) (py_int (x1 - 10), py_int (y1 - 10))]\<rparr>"
    unfolding render_frame_def Let_def t order bind_err_def
    by (simp add: composite_sprites_layers t0 t1 l0 l1)
  have "real_of_int 54 \<le> pos_y t0 - 10"
    using y0 lo by simp
  then have "54 \<le> py_int (pos_y t0 - 10)"
    by (intro py_int_ge) simp_all
  with rf order show ?thesis
    unfolding t by blast
qed

lemma depth_settings_at:
  "depth_settings 0 = Some (no_settings\<lparr> scale := Some 1, scale_variation := Some 1,
                          position_x := Some 384, position_y := Some 20,
                          path_type := Some ''organic'', breathe_amount := Some 0 \<rparr>)"
  "depth_settings (Suc 0) = Some (no_settings\<lparr> scale := Some 1, scale_variation := Some 1,
                          fixed_position := Some True,
                          position_x := Some 384, position_y := Some 40,
                          micro_movement := Some 0, breathe_amount := Some 0 \<rparr>)"
  by (simp_all add: depth_settings_def)

text \<open>
  C3 (depth ordering). The sort key of a sprite is the y coordinate of its path sampled
  at the raw frame time \<open>t\<close>, while the sprite is pasted at the path sampled at the eased,
  speed-scaled time. Take a 10 second, 12 fps run on a 768 by 432 canvas with an
  organic-style sprite 0 based at \<open>(384, 20)\<close> and a sprite 1 fixed at \<open>(384, 40)\<close>. In the
  last frame (\<open>t = 1\<close>) the keys are 20 and 40, so sprite 0 is composited first; but it is
  pasted from its position at the eased time \<open>1/2\<close>, which has \<open>y \<ge> 64.8\<close> (paste row at
  least 54), while sprite 1 is pasted from \<open>y = 40\<close> (paste row 30): the order is not
  ascending in the y actually used.
\<close>

theorem depth_order_uses_unscaled_time:
  "\<exists>a0 a1 px py.
     frame_files (snd (composite_video example_platform empty_world example_bg small_avatars
        10 12 (768, 432) (Some 7) (Some depth_settings) None)) ! 119 =
       (''/tmp/frames_x/f_00119.png'',
        \<lparr>canvas = example_bg,
         layers = [Layer (small_avatars ! 0) (20, 20) a0 (px, py),
                   Layer (small_avatars ! 1) (20, 20) a1 (374, 30)]\<rparr>) \<and>
     54 \<le> py \<and>
     map_sum id snd (get_path_position
        (built_paths example_platform small_avatars (768, 432) (Some 7) (Some depth_settings) None ! 0)
        (frame_time (10 * 12) 119)) = Inr 20 \<and>
     map_sum id snd (get_path_position
        (built_paths example_platform small_avatars (768, 432) (Some 7) (Some depth_settings) None ! 1)
        (frame_time (10 * 12) 119)) = Inr 40"
proof -
  let ?av0 = "\<lparr> im_size = (20, 20), im_pixels = 1 \<rparr>"
  let ?av1 = "\<lparr> im_size = (20, 20), im_pixels = 2 \<rparr>"
  let ?cv = "composite_video example_platform empty_world example_bg small_avatars
        10 12 (768, 432) (Some 7) (Some depth_settings) None"
  define st0 where "st0 = (Random example_platform (Some 7), None :: string option)"
  define m0 where "m0 = fst (sprite_motion lcg_source None 768 432 (Some 7) [] depth_settings 0 ?av0 st0)"
  define m1 where "m1 = fst (sprite_motion lcg_source None 768 432 (Some 7) [] depth_settings (Suc 0) ?av1
      (snd (sprite_motion lcg_source None 768 432 (Some 7) [] depth_settings 0 ?av0 st0)))"
  have jm: "fst (job_motions example_platform small_avatars (768, 432) (Some 7) (Some depth_settings) None)
      = [m0, m1]"
    unfolding job_motions_def small_avatars_def m0_def m1_def st0_def
    by (simp add: split_beta Let_def dict_get_def example_platform_def)
  have t: "frame_time (10 * 12) 119 = 1"
    by (simp add: frame_time_def)
  obtain tail0 where c0: "control_points m0 = (384, 20) # tail0"
      "\<forall>p \<in> set tail0. 0.15 * real_of_int (min 768 432) \<le> snd p"
    unfolding m0_def
    using sprite_motion_organic[where cs_map = depth_settings and i = 0 and b_x = 384 and b_y = 20
        and R = lcg_source and width = 768 and height = 432 and seed = "Some 7" and tp = "[]"
        and av = ?av0 and st = st0, OF depth_settings_at(1)]
    by (auto simp: no_settings_def)
  have len0: "4 \<le> length (control_points m0)"
    unfolding m0_def
    using sprite_motion_path_length[of lcg_source None 768 432 "Some 7" "[]" depth_settings 0 ?av0 st0]
    by simp
  have len1: "8 \<le> length (control_points m1)"
    unfolding m1_def by (rule sprite_motion_path_length)
  then have ne1: "control_points m1 \<noteq> []"
    by auto
  have c1: "set (control_points m1) \<subseteq> {(384, 40)}"
    unfolding m1_def
    by (rule sprite_motion_fixed[where cs_map = depth_settings and i = "Suc 0",
          OF depth_settings_at(2)]) (simp_all add: no_settings_def)
  have s0: "scale_base m0 = 1 \<and> scale_target m0 = 1 \<and> motion_breathe_amount m0 = 0 \<and>
      pulse_amount m0 = 0"
    unfolding m0_def
    by (rule sprite_motion_scales[where cs_map = depth_settings and i = 0,
          OF depth_settings_at(1)]) (simp_all add: no_settings_def)
  have s1: "scale_base m1 = 1 \<and> scale_target m1 = 1 \<and> motion_breathe_amount m1 = 0 \<and>
      pulse_amount m1 = 0"
    unfolding m1_def
    by (rule sprite_motion_scales[where cs_map = depth_settings and i = "Suc 0",
          OF depth_settings_at(2)]) (simp_all add: no_settings_def)
  have sp: "path_speed (dict_get (depth_settings 0) no_settings) = None"
    "path_speed (dict_get (depth_settings (Suc 0)) no_settings) = None"
    by (simp_all add: depth_settings_at dict_get_def no_settings_def)
  have lo: "(64 :: real) \<le> 0.15 * real_of_int (min 768 432)"
    by simp
  have "\<exists>a0 a1 px py.
            render_frame (\<lambda>sz a. sz) depth_settings example_bg [?av0, ?av1] [m0, m1] (10 * 12) 119 =
              Inr \<lparr>canvas = example_bg,
                   layers = [Layer ?av0 (20, 20) a0 (px, py),
                             Layer ?av1 (20, 20) a1 (py_int (384 - 10), py_int (40 - 10))]\<rparr> \<and>
            54 \<le> py"
    using last_frame_layers[OF t c0 len0 ne1 c1 _ _ _ _ _ _ _ _ _ sp _ _ lo,
        of ?av0 ?av1 example_bg] s0 s1
    by simp
  then obtain a0 a1 px py where rf:
      "render_frame (\<lambda>sz a. sz) depth_settings example_bg [?av0, ?av1] [m0, m1] (10 * 12) 119 =
         Inr \<lparr>canvas = example_bg,
              layers = [Layer ?av0 (20, 20) a0 (px, py), Layer ?av1 (20, 20) a1 (374, 30)]\<rparr>"
      "54 \<le> py"
    by (auto simp: py_int_def)
  have frames: "map (Inr \<circ> snd) (frame_files (snd ?cv)) =
      map (render_frame (\<lambda>sz a. sz) depth_settings example_bg [?av0, ?av1] [m0, m1] (10 * 12))
        [0..<nat (10 * 12)]"
    using composite_video_frames[of example_platform empty_world example_bg small_avatars 10 12
        "(768, 432)" "Some 7" "Some depth_settings" None]
    unfolding jm
    by (simp add: empty_world_def example_platform_def example_bg_def dict_get_def small_avatars_def)
  have names: "map fst (frame_files (snd ?cv)) =
      map (\<lambda>f. path_join ''/tmp/frames_x'' (frame_file_name f)) [0..<nat (10 * 12)]"
    using composite_video_effects[of example_platform empty_world example_bg small_avatars 10 12
        "(768, 432)" "Some 7" "Some depth_settings" None]
    by (simp add: empty_world_def example_platform_def)
  have len: "length (frame_files (snd ?cv)) = 120"
    using arg_cong[OF names, of length] by simp
  have "(Inr \<circ> snd) (frame_files (snd ?cv) ! 119) =
      render_frame (\<lambda>sz a. sz) depth_settings example_bg [?av0, ?av1] [m0, m1] (10 * 12) 119"
    using arg_cong[OF frames, of "\<lambda>xs. xs ! 119"] len by (simp add: nth_map del: upt_Suc)
  then have content: "snd (frame_files (snd ?cv) ! 119) =
      \<lparr>canvas = example_bg,
       layers = [Layer ?av0 (20, 20) a0 (px, py), Layer ?av1 (20, 20) a1 (374, 30)]\<rparr>"
    unfolding rf(1) by simp
  have "fst (frame_files (snd ?cv) ! 119) = path_join ''/tmp/frames_x'' (frame_file_name 119)"
    using arg_cong[OF names, of "\<lambda>xs. xs ! 119"] len by (simp add: nth_map del: upt_Suc)
  then have name: "fst (frame_files (snd ?cv) ! 119) = ''/tmp/frames_x/f_00119.png''"
    by (simp add: frame_file_name_examples path_join_def)
  have ff: "frame_files (snd ?cv) ! 119 =
      (''/tmp/frames_x/f_00119.png'',
       \<lparr>canvas = example_bg,
        layers = [Layer (small_avatars ! 0) (20, 20) a0 (px, py),
                  Layer (small_avatars ! 1) (20, 20) a1 (374, 30)]\<rparr>)"
    using name content by (simp add: prod_eq_iff small_avatars_def)
  have bp: "built_paths example_platform small_avatars (768, 432) (Some 7) (Some depth_settings) None
      = [control_points m0, control_points m1]"
    unfolding built_paths_def jm by simp
  have k0: "map_sum id snd (get_path_position (control_points m0) (frame_time (10 * 12) 119)) = Inr 20"
    unfolding t using get_path_position_at_one[of "control_points m0"] len0 c0(1) by simp
  have k1: "map_sum id snd (get_path_position (control_points m1) (frame_time (10 * 12) 119)) = Inr 40"
    using get_path_position_constant[OF ne1 c1] by simp
  show ?thesis
    unfolding bp using ff rf(2) k0 k1 by auto
qed

end
